theory Spec2Isabelle
  imports Complex_Main
begin

section \<open>Numbers and vectors\<close>

text \<open>
  The program computes on JavaScript numbers. They are modelled as the reals: rounding,
  infinities and NaN are outside the model, and every theorem below is a statement about
  the exact arithmetic the code writes down. Division by zero, which JavaScript answers
  with an infinity or NaN, is kept away from the theorems by hypotheses on the masses.

  \<open>THREE.Vector3\<close> is a class of the three.js library. Its methods mutate the receiver
  and return it; here each method is a function that returns the new vector, and
  \<open>clone\<close>/\<open>copy\<close> disappear. \<open>normalize\<close> divides by \<open>length() || 1\<close>, so the
  zero vector stays the zero vector; \<open>divideScalar s\<close> is \<open>multiplyScalar (1 / s)\<close>.
\<close>

datatype vec3 = Vector3 (vx: real) (vy: real) (vz: real)

definition add_v :: "vec3 \<Rightarrow> vec3 \<Rightarrow> vec3" where
  "add_v a b = Vector3 (vx a + vx b) (vy a + vy b) (vz a + vz b)"

definition sub_v :: "vec3 \<Rightarrow> vec3 \<Rightarrow> vec3" where
  "sub_v a b = Vector3 (vx a - vx b) (vy a - vy b) (vz a - vz b)"

definition multiplyScalar :: "real \<Rightarrow> vec3 \<Rightarrow> vec3" where
  "multiplyScalar s a = Vector3 (vx a * s) (vy a * s) (vz a * s)"

definition divideScalar :: "real \<Rightarrow> vec3 \<Rightarrow> vec3" where
  "divideScalar s a = multiplyScalar (1 / s) a"

definition dot_v :: "vec3 \<Rightarrow> vec3 \<Rightarrow> real" where
  "dot_v a b = vx a * vx b + vy a * vy b + vz a * vz b"

definition length_v :: "vec3 \<Rightarrow> real" where
  "length_v a = sqrt (vx a * vx a + vy a * vy a + vz a * vz a)"

definition distanceTo :: "vec3 \<Rightarrow> vec3 \<Rightarrow> real" where
  "distanceTo a b = sqrt ((vx a - vx b) * (vx a - vx b) + (vy a - vy b) * (vy a - vy b)
                          + (vz a - vz b) * (vz a - vz b))"

definition normalize_v :: "vec3 \<Rightarrow> vec3" where
  "normalize_v a = divideScalar (if length_v a = 0 then 1 else length_v a) a"

section \<open>Particles\<close>

text \<open>
  \<open>VerletVertex\<close> is the particle of the basic cloth; \<open>AdvancedVerletVertex\<close> has the
  same four fields followed by \<open>mass\<close> and \<open>pinned\<close>.
\<close>

record VerletVertex =
  position :: vec3
  oldPosition :: vec3
  acceleration :: vec3
  isFixed :: bool

record AdvancedVerletVertex = VerletVertex +
  mass :: real
  pinned :: bool

definition DAMPING :: real where "DAMPING = 0.99"
definition STIFFNESS :: real where "STIFFNESS = 0.4"
definition GRAVITY :: real where "GRAVITY = - 0.0098"
definition WIND_STRENGTH :: real where "WIND_STRENGTH = 0.003"

definition DAMPING_adv :: real where "DAMPING_adv = 0.995"
definition STIFFNESS_adv :: real where "STIFFNESS_adv = 0.5"
definition GRAVITY_adv :: real where "GRAVITY_adv = - 0.0098"
definition WIND_STRENGTH_adv :: real where "WIND_STRENGTH_adv = 0.004"
definition TEAR_THRESHOLD :: real where "TEAR_THRESHOLD = 0.8"

text \<open>The constructors: a new particle is at rest, and a fixed one is also pinned.\<close>

definition VerletVertex_new :: "real \<Rightarrow> real \<Rightarrow> real \<Rightarrow> bool \<Rightarrow> VerletVertex" where
  "VerletVertex_new x y z fixed =
     \<lparr>position = Vector3 x y z, oldPosition = Vector3 x y z, acceleration = Vector3 0 0 0,
      isFixed = fixed\<rparr>"

definition AdvancedVerletVertex_new ::
  "real \<Rightarrow> real \<Rightarrow> real \<Rightarrow> bool \<Rightarrow> AdvancedVerletVertex" where
  "AdvancedVerletVertex_new x y z fixed =
     \<lparr>position = Vector3 x y z, oldPosition = Vector3 x y z, acceleration = Vector3 0 0 0,
      isFixed = fixed, mass = 1.0, pinned = fixed\<rparr>"

text \<open>\<open>VerletVertex.update\<close> and \<open>VerletVertex.addForce\<close> (ClothSimulation.jsx).\<close>

definition VerletVertex_update :: "real \<Rightarrow> VerletVertex \<Rightarrow> VerletVertex" where
  "VerletVertex_update deltaTime v =
     (if isFixed v then v
      else
        let velocity = multiplyScalar DAMPING (sub_v (position v) (oldPosition v))
        in v\<lparr>oldPosition := position v,
              position := add_v (add_v (position v) velocity)
                            (multiplyScalar (deltaTime * deltaTime) (acceleration v)),
              acceleration := Vector3 0 0 0\<rparr>)"

definition VerletVertex_addForce :: "vec3 \<Rightarrow> VerletVertex \<Rightarrow> VerletVertex" where
  "VerletVertex_addForce force v = v\<lparr>acceleration := add_v (acceleration v) force\<rparr>"

text \<open>
  \<open>AdvancedVerletVertex.update\<close>, \<open>addForce\<close>, \<open>pin\<close> and \<open>unpin\<close>
  (AdvancedClothSimulation.jsx).
\<close>

definition AdvancedVerletVertex_update ::
  "real \<Rightarrow> AdvancedVerletVertex \<Rightarrow> AdvancedVerletVertex" where
  "AdvancedVerletVertex_update deltaTime v =
     (if isFixed v \<or> pinned v then v
      else
        let velocity = multiplyScalar DAMPING_adv (sub_v (position v) (oldPosition v))
        in v\<lparr>oldPosition := position v,
              position := add_v (add_v (position v) velocity)
                            (multiplyScalar (deltaTime * deltaTime) (acceleration v)),
              acceleration := Vector3 0 0 0\<rparr>)"

definition AdvancedVerletVertex_addForce ::
  "vec3 \<Rightarrow> AdvancedVerletVertex \<Rightarrow> AdvancedVerletVertex" where
  "AdvancedVerletVertex_addForce force v =
     (if \<not> isFixed v \<and> \<not> pinned v
      then v\<lparr>acceleration := add_v (acceleration v) (divideScalar (mass v) force)\<rparr>
      else v)"

definition pin :: "AdvancedVerletVertex \<Rightarrow> AdvancedVerletVertex" where
  "pin v = v\<lparr>pinned := True\<rparr>"

definition unpin :: "AdvancedVerletVertex \<Rightarrow> AdvancedVerletVertex" where
  "unpin v = v\<lparr>pinned := False\<rparr>"


section \<open>Constraints\<close>

text \<open>
  A constraint holds references to two particle objects. In the model the particles live
  in the list \<open>vertices\<close> and a constraint holds their two indices, so that an update of a
  particle through one constraint is seen by every other constraint that shares it. A
  JavaScript reference cannot dangle: the indices of a constraint are below the length of
  the particle list, and the theorems that read a particle through a constraint say so.
  \<open>AdvancedVerletConstraint\<close> has the three fields of \<open>VerletConstraint\<close> followed by
  \<open>stiffness\<close> and \<open>active\<close>.
\<close>

record VerletConstraint =
  v1 :: nat
  v2 :: nat
  restLength :: real

record AdvancedVerletConstraint = VerletConstraint +
  stiffness :: real
  active :: bool

text \<open>
  The constructors take the two particles (here: their indices in the particle list) and
  measure the rest length between them.
\<close>

definition VerletConstraint_new :: "VerletVertex list \<Rightarrow> nat \<Rightarrow> nat \<Rightarrow> VerletConstraint" where
  "VerletConstraint_new vs i j =
     \<lparr>v1 = i, v2 = j, restLength = distanceTo (position (vs ! i)) (position (vs ! j))\<rparr>"

definition AdvancedVerletConstraint_new ::
  "AdvancedVerletVertex list \<Rightarrow> nat \<Rightarrow> nat \<Rightarrow> real \<Rightarrow> AdvancedVerletConstraint" where
  "AdvancedVerletConstraint_new vs i j s =
     \<lparr>v1 = i, v2 = j, restLength = distanceTo (position (vs ! i)) (position (vs ! j)),
      stiffness = s, active = True\<rparr>"

text \<open>\<open>VerletConstraint.satisfy\<close>: the constraint itself has no mutable field.\<close>

definition VerletConstraint_satisfy ::
  "VerletConstraint \<Rightarrow> VerletVertex list \<Rightarrow> VerletVertex list" where
  "VerletConstraint_satisfy c vs =
     (let delta = sub_v (position (vs ! v2 c)) (position (vs ! v1 c));
          distance = length_v delta
      in if distance = 0 then vs
         else
           let difference = (restLength c - distance) / distance;
               offset = multiplyScalar (difference * STIFFNESS * 0.5) delta;
               vs1 = (if \<not> isFixed (vs ! v1 c)
                      then vs[v1 c := (vs ! v1 c)\<lparr>position :=
                                 sub_v (position (vs ! v1 c)) offset\<rparr>]
                      else vs);
               vs2 = (if \<not> isFixed (vs1 ! v2 c)
                      then vs1[v2 c := (vs1 ! v2 c)\<lparr>position :=
                                 add_v (position (vs1 ! v2 c)) offset\<rparr>]
                      else vs1)
           in vs2)"

text \<open>
  \<open>AdvancedVerletConstraint.satisfy\<close> returns the constraint, whose \<open>active\<close> flag it may
  clear, and the particles.
\<close>

definition AdvancedVerletConstraint_satisfy ::
  "AdvancedVerletConstraint \<Rightarrow> AdvancedVerletVertex list
     \<Rightarrow> AdvancedVerletConstraint \<times> AdvancedVerletVertex list" where
  "AdvancedVerletConstraint_satisfy c vs =
     (if \<not> active c then (c, vs)
      else
        let delta = sub_v (position (vs ! v2 c)) (position (vs ! v1 c));
            distance = length_v delta
        in if distance > restLength c * TEAR_THRESHOLD \<and> restLength c > 0.1
           then (c\<lparr>active := False\<rparr>, vs)
           else if distance = 0 then (c, vs)
           else
             let difference = (restLength c - distance) / distance;
                 offset = multiplyScalar (difference * stiffness c * 0.5) delta;
                 totalMass = mass (vs ! v1 c) + mass (vs ! v2 c);
                 m1 = mass (vs ! v2 c) / totalMass;
                 m2 = mass (vs ! v1 c) / totalMass;
                 vs1 = (if \<not> isFixed (vs ! v1 c) \<and> \<not> pinned (vs ! v1 c)
                        then vs[v1 c := (vs ! v1 c)\<lparr>position :=
                                   sub_v (position (vs ! v1 c)) (multiplyScalar m1 offset)\<rparr>]
                        else vs);
                 vs2 = (if \<not> isFixed (vs1 ! v2 c) \<and> \<not> pinned (vs1 ! v2 c)
                        then vs1[v2 c := (vs1 ! v2 c)\<lparr>position :=
                                   add_v (position (vs1 ! v2 c)) (multiplyScalar m2 offset)\<rparr>]
                        else vs1)
             in (c, vs2))"

definition AdvancedVerletConstraint_tear ::
  "AdvancedVerletConstraint \<Rightarrow> AdvancedVerletConstraint" where
  "AdvancedVerletConstraint_tear c = c\<lparr>active := False\<rparr>"

section \<open>The frame callback of the basic cloth\<close>

text \<open>
  The component keeps its simulation state in refs: the particles, the constraints, the
  sphere obstacle, a frame counter and the mesh (here: whether \<open>meshRef.current\<close> is
  set). The props that reach the simulation are \<open>showSphere\<close> and \<open>windIntensity\<close>, and
  \<open>enableTearing\<close> in the advanced cloth. Copying the positions into the render buffer
  at the end of the callback changes no simulation state and is left out.
\<close>

record Sphere =
  sposition :: vec3
  radius :: real

record AdvancedSphere = Sphere +
  lastPosition :: vec3

record ('v, 'c, 's) ClothRefs =
  meshRef :: bool
  vertices :: "'v list"
  constraints :: "'c list"
  sphere :: 's
  frameCount :: nat

record ClothProps =
  showSphere :: bool
  windIntensity :: real

record AdvancedClothProps = ClothProps +
  enableTearing :: bool

definition spherePath :: "real \<Rightarrow> vec3" where
  "spherePath time =
     Vector3 (sin (time * 1.8) * 0.6) (- 0.3 + sin (time * 0.7) * 0.4) (cos (time * 1.2) * 0.4)"

definition windForce :: "real \<Rightarrow> real \<Rightarrow> vec3 \<Rightarrow> vec3" where
  "windForce time intensity p =
     (let windTime = time * 0.5;
          windX = (sin (windTime * 2 + vx p * 3) + sin (windTime * 3.2 + vz p * 2))
                    * WIND_STRENGTH * intensity;
          windY = sin (windTime * 1.5 + vx p * 4 + vz p * 3) * WIND_STRENGTH * 0.3 * intensity;
          windZ = (cos (windTime * 1.8 + vx p * 2.5) + cos (windTime * 2.3 + vz p * 1.8))
                    * WIND_STRENGTH * 0.7 * intensity
      in Vector3 windX windY windZ)"

definition sphereCollision :: "Sphere \<Rightarrow> VerletVertex \<Rightarrow> VerletVertex" where
  "sphereCollision s v =
     (let toSphere = sub_v (position v) (sposition s);
          distance = length_v toSphere
      in if distance < radius s + 0.05
         then
           let pushBack = multiplyScalar ((radius s + 0.05) - distance) (normalize_v toSphere)
           in v\<lparr>position := add_v (position v) pushBack\<rparr>
         else v)"

definition applyForces :: "ClothProps \<Rightarrow> real \<Rightarrow> Sphere \<Rightarrow> VerletVertex \<Rightarrow> VerletVertex" where
  "applyForces props time s vertex =
     (if isFixed vertex then vertex
      else
        let a = VerletVertex_addForce (Vector3 0 GRAVITY 0) vertex;
            b = VerletVertex_addForce (windForce time (windIntensity props) (position a)) a
        in if showSphere props then sphereCollision s b else b)"

fun solvePass :: "VerletConstraint list \<Rightarrow> VerletVertex list \<Rightarrow> VerletVertex list" where
  "solvePass [] vs = vs"
| "solvePass (c # cs) vs = solvePass cs (VerletConstraint_satisfy c vs)"

fun relax :: "nat \<Rightarrow> VerletConstraint list \<Rightarrow> VerletVertex list \<Rightarrow> VerletVertex list" where
  "relax 0 cs vs = vs"
| "relax (Suc n) cs vs = relax n cs (solvePass cs vs)"

definition ClothSimulation_frame ::
  "ClothProps \<Rightarrow> real \<Rightarrow> real \<Rightarrow> (VerletVertex, VerletConstraint, Sphere) ClothRefs
     \<Rightarrow> (VerletVertex, VerletConstraint, Sphere) ClothRefs" where
  "ClothSimulation_frame props time deltaTime st =
     (if \<not> meshRef st then st
      else
        let s = (sphere st)\<lparr>sposition := spherePath time\<rparr>;
            forced = map (applyForces props time s) (vertices st);
            moved = map (VerletVertex_update deltaTime) forced;
            relaxed = relax 4 (constraints st) moved
        in st\<lparr>frameCount := frameCount st + 1, sphere := s, vertices := relaxed\<rparr>)"

section \<open>The frame callback of the advanced cloth\<close>

definition spherePath_adv :: "real \<Rightarrow> vec3" where
  "spherePath_adv time =
     Vector3 (sin (time * 1.2) * 0.8 + cos (time * 0.7) * 0.3)
             (- 0.2 + sin (time * 0.8) * 0.5 + cos (time * 1.5) * 0.2)
             (cos (time * 0.9) * 0.6 + sin (time * 1.8) * 0.2)"

definition windForce_adv :: "real \<Rightarrow> real \<Rightarrow> vec3 \<Rightarrow> vec3" where
  "windForce_adv time intensity p =
     (let windTime = time * 0.3;
          noiseX = sin (windTime * 2.1 + vx p * 4) * cos (windTime * 1.7 + vz p * 3);
          noiseY = sin (windTime * 1.3 + vy p * 5) * cos (windTime * 2.4 + vx p * 2);
          noiseZ = cos (windTime * 1.8 + vz p * 2.5) * sin (windTime * 3.1 + vy p * 1.5)
      in Vector3 (noiseX * WIND_STRENGTH_adv * intensity)
                 (noiseY * WIND_STRENGTH_adv * intensity * 0.3)
                 (noiseZ * WIND_STRENGTH_adv * intensity * 0.8))"

text \<open>
  In the source \<open>toSphere.normalize().multiplyScalar(..)\<close> overwrites \<open>toSphere\<close>, so the
  later \<open>toSphere.normalize()\<close> normalises the correction vector.
\<close>

definition sphereCollision_adv ::
  "AdvancedSphere \<Rightarrow> AdvancedVerletVertex \<Rightarrow> AdvancedVerletVertex" where
  "sphereCollision_adv s v =
     (let toSphere = sub_v (position v) (sposition s);
          distance = length_v toSphere;
          minDistance = radius s + 0.08
      in if distance < minDistance \<and> distance > 0
         then
           let correction = multiplyScalar (minDistance - distance) (normalize_v toSphere);
               v' = v\<lparr>position := add_v (position v) correction\<rparr>;
               velocity = sub_v (position v') (oldPosition v');
               normal = normalize_v correction;
               velocityAlongNormal = dot_v velocity normal
           in if velocityAlongNormal < 0
              then
                let bounce = multiplyScalar (velocityAlongNormal * - 1.5) normal
                in v'\<lparr>oldPosition := sub_v (oldPosition v') bounce\<rparr>
              else v'
         else v)"

text \<open>One round of the self-collision loop: particle \<open>i\<close> against particle \<open>j\<close>.\<close>

definition selfCollisionPair ::
  "nat \<Rightarrow> nat \<Rightarrow> AdvancedVerletVertex list \<Rightarrow> AdvancedVerletVertex list" where
  "selfCollisionPair i j vs =
     (let distance = distanceTo (position (vs ! i)) (position (vs ! j))
      in if distance < 0.1 \<and> distance > 0
         then
           let separation =
                 multiplyScalar ((0.1 - distance) * 0.5)
                   (normalize_v (sub_v (position (vs ! i)) (position (vs ! j))));
               vs1 = vs[i := (vs ! i)\<lparr>position := add_v (position (vs ! i)) separation\<rparr>]
           in vs1[j := (vs1 ! j)\<lparr>position := sub_v (position (vs1 ! j)) separation\<rparr>]
         else vs)"

text \<open>
  \<open>for (let j = i + 10; j < vertices.current.length; j += 15)\<close>; the array is never
  resized, and its length is the parameter \<open>n\<close>.
\<close>

function selfCollisionLoop ::
  "nat \<Rightarrow> nat \<Rightarrow> nat \<Rightarrow> AdvancedVerletVertex list \<Rightarrow> AdvancedVerletVertex list" where
  "selfCollisionLoop i j n vs =
     (if j < n then selfCollisionLoop i (j + 15) n (selfCollisionPair i j vs) else vs)"
  by pat_completeness auto
termination
  by (relation "measure (\<lambda>(i, j, n, vs). n - j)") auto

declare selfCollisionLoop.simps [simp del]

definition applyForces_adv ::
  "AdvancedClothProps \<Rightarrow> real \<Rightarrow> AdvancedSphere \<Rightarrow> nat \<Rightarrow> nat
     \<Rightarrow> AdvancedVerletVertex list \<Rightarrow> AdvancedVerletVertex list" where
  "applyForces_adv props time s fc i vs =
     (if isFixed (vs ! i) \<or> pinned (vs ! i) then vs
      else
        let a = AdvancedVerletVertex_addForce (Vector3 0 GRAVITY_adv 0) (vs ! i);
            b = AdvancedVerletVertex_addForce
                  (windForce_adv time (windIntensity props) (position a)) a;
            c = (if showSphere props then sphereCollision_adv s b else b);
            vs1 = vs[i := c]
        in if fc mod 3 = 0 then selfCollisionLoop i (i + 10) (length vs1) vs1 else vs1)"

fun solvePass_adv ::
  "AdvancedVerletConstraint list \<Rightarrow> AdvancedVerletVertex list
     \<Rightarrow> AdvancedVerletConstraint list \<times> AdvancedVerletVertex list" where
  "solvePass_adv [] vs = ([], vs)"
| "solvePass_adv (c # cs) vs =
     (let (c', vs') = (if active c then AdvancedVerletConstraint_satisfy c vs else (c, vs));
          (cs', vs'') = solvePass_adv cs vs'
      in (c' # cs', vs''))"

fun relax_adv ::
  "nat \<Rightarrow> AdvancedVerletConstraint list \<Rightarrow> AdvancedVerletVertex list
     \<Rightarrow> AdvancedVerletConstraint list \<times> AdvancedVerletVertex list" where
  "relax_adv 0 cs vs = (cs, vs)"
| "relax_adv (Suc n) cs vs = (let (cs', vs') = solvePass_adv cs vs in relax_adv n cs' vs')"

definition tearCheck ::
  "AdvancedVerletVertex list \<Rightarrow> AdvancedVerletConstraint \<Rightarrow> AdvancedVerletConstraint" where
  "tearCheck vs c =
     (if \<not> active c then c
      else
        let distance = distanceTo (position (vs ! v1 c)) (position (vs ! v2 c))
        in if distance > restLength c * 2.5 then AdvancedVerletConstraint_tear c else c)"

definition AdvancedClothSimulation_frame ::
  "AdvancedClothProps \<Rightarrow> real \<Rightarrow> real
     \<Rightarrow> (AdvancedVerletVertex, AdvancedVerletConstraint, AdvancedSphere) ClothRefs
     \<Rightarrow> (AdvancedVerletVertex, AdvancedVerletConstraint, AdvancedSphere) ClothRefs" where
  "AdvancedClothSimulation_frame props time deltaTime st =
     (if \<not> meshRef st then st
      else
        let fc = frameCount st + 1;
            s = (sphere st)\<lparr>lastPosition := sposition (sphere st),
                            sposition := spherePath_adv time\<rparr>;
            forced = fold (applyForces_adv props time s fc) [0..<length (vertices st)]
                       (vertices st);
            moved = map (AdvancedVerletVertex_update deltaTime) forced;
            (cs1, relaxed) = relax_adv 5 (constraints st) moved;
            cs2 = (if enableTearing props \<and> fc mod 60 = 0
                   then map (tearCheck relaxed) cs1 else cs1)
        in st\<lparr>frameCount := fc, sphere := s, vertices := relaxed, constraints := cs2\<rparr>)"

section \<open>Vector algebra\<close>

lemma length_v_nonneg: "0 \<le> length_v a"
  by (simp add: length_v_def)

lemma length_v_multiplyScalar: "length_v (multiplyScalar s a) = \<bar>s\<bar> * length_v a"
proof -
  have "vx a * s * (vx a * s) + vy a * s * (vy a * s) + vz a * s * (vz a * s)
        = (s * s) * (vx a * vx a + vy a * vy a + vz a * vz a)"
    by (simp add: algebra_simps)
  then show ?thesis
    by (simp add: length_v_def multiplyScalar_def real_sqrt_mult)
qed

lemma length_v_axis: "length_v (Vector3 a 0 0) = \<bar>a\<bar>"
  by (simp add: length_v_def)

lemma distanceTo_length: "distanceTo a b = length_v (sub_v a b)"
  by (simp add: distanceTo_def length_v_def sub_v_def)

lemma sub_add_cancel_v: "sub_v (add_v p q) p = q"
  by (cases q) (simp add: sub_v_def add_v_def)

lemma sub_sub_cancel_v: "sub_v (sub_v p q) p = multiplyScalar (- 1) q"
  by (simp add: sub_v_def multiplyScalar_def)

lemma multiplyScalar_twice: "multiplyScalar a (multiplyScalar b p) = multiplyScalar (a * b) p"
  by (simp add: multiplyScalar_def mult.assoc mult.commute)

lemma add_multiplyScalar_self: "add_v p (multiplyScalar k p) = multiplyScalar (1 + k) p"
  by (simp add: add_v_def multiplyScalar_def algebra_simps)

lemma normalize_v_nonzero:
  "length_v a \<noteq> 0 \<Longrightarrow> normalize_v a = multiplyScalar (1 / length_v a) a"
  by (simp add: normalize_v_def divideScalar_def)

lemma normalize_v_zero: "normalize_v (Vector3 0 0 0) = Vector3 0 0 0"
  by (simp add: normalize_v_def divideScalar_def multiplyScalar_def)

lemma push_out_length:
  assumes "0 < length_v t" and "length_v t < m"
  shows "length_v (add_v t (multiplyScalar (m - length_v t) (normalize_v t))) = m"
proof -
  let ?d = "length_v t"
  have "add_v t (multiplyScalar (m - ?d) (normalize_v t)) = multiplyScalar (1 + (m - ?d) * (1 / ?d)) t"
    using assms by (simp add: normalize_v_nonzero multiplyScalar_twice add_multiplyScalar_self)
  moreover have "1 + (m - ?d) * (1 / ?d) = m / ?d"
    using assms by (simp add: field_simps)
  ultimately have "length_v (add_v t (multiplyScalar (m - ?d) (normalize_v t))) = \<bar>m / ?d\<bar> * ?d"
    by (simp add: length_v_multiplyScalar)
  also have "\<dots> = m" using assms by simp
  finally show ?thesis .
qed

lemma sub_add_assoc_v: "sub_v (add_v p q) c = add_v (sub_v p c) q"
  by (simp add: sub_v_def add_v_def)

lemma length_v_zero: "length_v (Vector3 0 0 0) = 0"
  by (simp add: length_v_def)

lemma sub_v_self: "sub_v p p = Vector3 0 0 0"
  by (simp add: sub_v_def)

lemma length_v_neg: "length_v (multiplyScalar (- 1) q) = length_v q"
  by (simp add: length_v_multiplyScalar)

lemma length_v_zero_iff: "length_v a = 0 \<longleftrightarrow> a = Vector3 0 0 0"
proof (cases a)
  case (Vector3 x y z)
  have "x * x + y * y + z * z = 0 \<longleftrightarrow> x = 0 \<and> y = 0 \<and> z = 0"
  proof
    assume h: "x * x + y * y + z * z = 0"
    have "0 \<le> x * x" "0 \<le> y * y" "0 \<le> z * z" by simp_all
    with h have "x * x = 0" "y * y = 0" "z * z = 0" by linarith+
    then show "x = 0 \<and> y = 0 \<and> z = 0" by simp
  next
    assume "x = 0 \<and> y = 0 \<and> z = 0"
    then show "x * x + y * y + z * z = 0" by simp
  qed
  then show ?thesis by (simp add: Vector3 length_v_def)
qed

lemma add_v_zero: "add_v p (Vector3 0 0 0) = p"
  by (cases p) (simp add: add_v_def)

lemma multiplyScalar_zero: "multiplyScalar k (Vector3 0 0 0) = Vector3 0 0 0"
  by (simp add: multiplyScalar_def)

section \<open>Particles: forces and integration\<close>

lemma nth_update_field:
  "f x = f (xs ! i) \<Longrightarrow> f (xs[i := x] ! k) = f (xs ! k)"
  by (cases "i < length xs"; cases "i = k"; simp add: list_update_beyond)

lemma fold_addForce:
  "\<not> isFixed v \<Longrightarrow> \<not> pinned v \<Longrightarrow>
   fold AdvancedVerletVertex_addForce fs v =
     v\<lparr>acceleration :=
         Vector3 (vx (acceleration v) + sum_list (map vx fs) / mass v)
                 (vy (acceleration v) + sum_list (map vy fs) / mass v)
                 (vz (acceleration v) + sum_list (map vz fs) / mass v)\<rparr>"
proof (induction fs arbitrary: v)
  case Nil
  then show ?case by simp
next
  case (Cons f fs)
  let ?w = "AdvancedVerletVertex_addForce f v"
  have w: "?w = v\<lparr>acceleration := add_v (acceleration v) (divideScalar (mass v) f)\<rparr>"
    using Cons.prems by (simp add: AdvancedVerletVertex_addForce_def)
  have "\<not> isFixed ?w" "\<not> pinned ?w" using Cons.prems by (simp_all add: w)
  from Cons.IH[OF this] show ?case
    by (simp add: w add_v_def divideScalar_def multiplyScalar_def add_divide_distrib)
qed

text \<open>
  Claim C4, as the code has it. In the advanced cloth \<open>addForce v\<close> adds \<open>v / mass\<close> to
  the accumulated acceleration of a particle that is neither fixed nor pinned (its mass
  not being zero) and leaves a fixed or pinned particle as it is. The particle of the
  basic cloth has no mass and no pinned flag: its \<open>addForce v\<close> adds \<open>v\<close> itself, whether
  the particle is fixed or not.
\<close>
theorem addForce_inverse_mass:
  "(\<not> isFixed v \<and> \<not> pinned v \<and> mass v \<noteq> 0 \<longrightarrow>
      AdvancedVerletVertex_addForce f v =
        v\<lparr>acceleration :=
            Vector3 (vx (acceleration v) + vx f / mass v)
                    (vy (acceleration v) + vy f / mass v)
                    (vz (acceleration v) + vz f / mass v)\<rparr>)
   \<and> (isFixed v \<or> pinned v \<longrightarrow> AdvancedVerletVertex_addForce f v = v)
   \<and> VerletVertex_addForce f w =
       w\<lparr>acceleration :=
           Vector3 (vx (acceleration w) + vx f) (vy (acceleration w) + vy f)
                   (vz (acceleration w) + vz f)\<rparr>"
  by (simp add: AdvancedVerletVertex_addForce_def VerletVertex_addForce_def add_v_def
        divideScalar_def multiplyScalar_def)

text \<open>The theorem at a free particle of mass 2 and at a pinned one.\<close>
theorem addForce_inverse_mass_witness:
  "AdvancedVerletVertex_addForce (Vector3 2 4 6)
     \<lparr>position = Vector3 0 0 0, oldPosition = Vector3 0 0 0, acceleration = Vector3 1 1 1,
      isFixed = False, mass = 2, pinned = False\<rparr>
   = \<lparr>position = Vector3 0 0 0, oldPosition = Vector3 0 0 0, acceleration = Vector3 2 3 4,
      isFixed = False, mass = 2, pinned = False\<rparr>
   \<and> AdvancedVerletVertex_addForce (Vector3 2 4 6)
     \<lparr>position = Vector3 0 0 0, oldPosition = Vector3 0 0 0, acceleration = Vector3 1 1 1,
      isFixed = False, mass = 2, pinned = True\<rparr>
   = \<lparr>position = Vector3 0 0 0, oldPosition = Vector3 0 0 0, acceleration = Vector3 1 1 1,
      isFixed = False, mass = 2, pinned = True\<rparr>"
  using addForce_inverse_mass [where f = "Vector3 2 4 6" and v =
     "\<lparr>position = Vector3 0 0 0, oldPosition = Vector3 0 0 0, acceleration = Vector3 1 1 1,
      isFixed = False, mass = 2, pinned = False\<rparr>"]
    addForce_inverse_mass [where f = "Vector3 2 4 6" and v =
     "\<lparr>position = Vector3 0 0 0, oldPosition = Vector3 0 0 0, acceleration = Vector3 1 1 1,
      isFixed = False, mass = 2, pinned = True\<rparr>"]
  by simp

text \<open>
  Claim C4 as stated fails on the basic particle: \<open>addForce\<close> changes the acceleration
  of a fixed \<open>VerletVertex\<close>.
\<close>
theorem basic_addForce_fixed_counterexample:
  "isFixed \<lparr>position = Vector3 0 0 0, oldPosition = Vector3 0 0 0,
            acceleration = Vector3 0 0 0, isFixed = True\<rparr>
   \<and> VerletVertex_addForce (Vector3 1 0 0)
        \<lparr>position = Vector3 0 0 0, oldPosition = Vector3 0 0 0,
         acceleration = Vector3 0 0 0, isFixed = True\<rparr>
     \<noteq> \<lparr>position = Vector3 0 0 0, oldPosition = Vector3 0 0 0,
         acceleration = Vector3 0 0 0, isFixed = True\<rparr>"
  by (simp add: VerletVertex_addForce_def add_v_def)

text \<open>
  Claim C7. \<open>update dt\<close> leaves a fixed (advanced: fixed or pinned) particle as it is.
  For any other particle the new position is
  \<open>position + damping * (position - oldPosition) + acceleration * dt\<^sup>2\<close>, the old
  position becomes the position before the call, and the acceleration is reset to zero.
  The acceleration field is what \<open>addForce\<close> accumulated: after the forces \<open>fs\<close> on a
  free particle of positive mass whose acceleration was zero it is \<open>sum fs / mass\<close>, which
  is the third part of the theorem.
\<close>
theorem update_verlet:
  "AdvancedVerletVertex_update dt v =
     (if isFixed v \<or> pinned v then v
      else v\<lparr>oldPosition := position v,
             position :=
               Vector3 (vx (position v) + DAMPING_adv * (vx (position v) - vx (oldPosition v))
                          + vx (acceleration v) * dt\<^sup>2)
                       (vy (position v) + DAMPING_adv * (vy (position v) - vy (oldPosition v))
                          + vy (acceleration v) * dt\<^sup>2)
                       (vz (position v) + DAMPING_adv * (vz (position v) - vz (oldPosition v))
                          + vz (acceleration v) * dt\<^sup>2),
             acceleration := Vector3 0 0 0\<rparr>)
   \<and> VerletVertex_update dt w =
     (if isFixed w then w
      else w\<lparr>oldPosition := position w,
             position :=
               Vector3 (vx (position w) + DAMPING * (vx (position w) - vx (oldPosition w))
                          + vx (acceleration w) * dt\<^sup>2)
                       (vy (position w) + DAMPING * (vy (position w) - vy (oldPosition w))
                          + vy (acceleration w) * dt\<^sup>2)
                       (vz (position w) + DAMPING * (vz (position w) - vz (oldPosition w))
                          + vz (acceleration w) * dt\<^sup>2),
             acceleration := Vector3 0 0 0\<rparr>)
   \<and> (0 < mass v \<and> \<not> isFixed v \<and> \<not> pinned v \<and> acceleration v = Vector3 0 0 0 \<longrightarrow>
        position (AdvancedVerletVertex_update dt (fold AdvancedVerletVertex_addForce fs v)) =
          Vector3 (vx (position v) + DAMPING_adv * (vx (position v) - vx (oldPosition v))
                     + sum_list (map vx fs) / mass v * dt\<^sup>2)
                  (vy (position v) + DAMPING_adv * (vy (position v) - vy (oldPosition v))
                     + sum_list (map vy fs) / mass v * dt\<^sup>2)
                  (vz (position v) + DAMPING_adv * (vz (position v) - vz (oldPosition v))
                     + sum_list (map vz fs) / mass v * dt\<^sup>2))"
proof (intro conjI impI)
  show "AdvancedVerletVertex_update dt v =
     (if isFixed v \<or> pinned v then v
      else v\<lparr>oldPosition := position v,
             position :=
               Vector3 (vx (position v) + DAMPING_adv * (vx (position v) - vx (oldPosition v))
                          + vx (acceleration v) * dt\<^sup>2)
                       (vy (position v) + DAMPING_adv * (vy (position v) - vy (oldPosition v))
                          + vy (acceleration v) * dt\<^sup>2)
                       (vz (position v) + DAMPING_adv * (vz (position v) - vz (oldPosition v))
                          + vz (acceleration v) * dt\<^sup>2),
             acceleration := Vector3 0 0 0\<rparr>)"
    by (simp add: AdvancedVerletVertex_update_def add_v_def sub_v_def multiplyScalar_def
          power2_eq_square mult.commute)
  show "VerletVertex_update dt w =
     (if isFixed w then w
      else w\<lparr>oldPosition := position w,
             position :=
               Vector3 (vx (position w) + DAMPING * (vx (position w) - vx (oldPosition w))
                          + vx (acceleration w) * dt\<^sup>2)
                       (vy (position w) + DAMPING * (vy (position w) - vy (oldPosition w))
                          + vy (acceleration w) * dt\<^sup>2)
                       (vz (position w) + DAMPING * (vz (position w) - vz (oldPosition w))
                          + vz (acceleration w) * dt\<^sup>2),
             acceleration := Vector3 0 0 0\<rparr>)"
    by (simp add: VerletVertex_update_def add_v_def sub_v_def multiplyScalar_def
          power2_eq_square mult.commute)
next
  assume a: "0 < mass v \<and> \<not> isFixed v \<and> \<not> pinned v \<and> acceleration v = Vector3 0 0 0"
  then show "position (AdvancedVerletVertex_update dt (fold AdvancedVerletVertex_addForce fs v)) =
          Vector3 (vx (position v) + DAMPING_adv * (vx (position v) - vx (oldPosition v))
                     + sum_list (map vx fs) / mass v * dt\<^sup>2)
                  (vy (position v) + DAMPING_adv * (vy (position v) - vy (oldPosition v))
                     + sum_list (map vy fs) / mass v * dt\<^sup>2)
                  (vz (position v) + DAMPING_adv * (vz (position v) - vz (oldPosition v))
                     + sum_list (map vz fs) / mass v * dt\<^sup>2)"
    by (simp add: fold_addForce AdvancedVerletVertex_update_def add_v_def sub_v_def
          multiplyScalar_def power2_eq_square mult.commute)
qed

text \<open>The theorem at a free particle of mass 2 under one force, and at a fixed basic particle.\<close>
theorem update_verlet_witness:
  "0 < mass \<lparr>position = Vector3 1 1 1, oldPosition = Vector3 0 0 0,
             acceleration = Vector3 0 0 0, isFixed = False, mass = 2, pinned = False\<rparr>
   \<and> position (AdvancedVerletVertex_update 1 (fold AdvancedVerletVertex_addForce [Vector3 0 2 0]
        \<lparr>position = Vector3 1 1 1, oldPosition = Vector3 0 0 0,
         acceleration = Vector3 0 0 0, isFixed = False, mass = 2, pinned = False\<rparr>))
     = Vector3 (399 / 200) (599 / 200) (399 / 200)
   \<and> VerletVertex_update 1
        \<lparr>position = Vector3 1 1 1, oldPosition = Vector3 0 0 0,
         acceleration = Vector3 0 1 0, isFixed = True\<rparr>
     = \<lparr>position = Vector3 1 1 1, oldPosition = Vector3 0 0 0,
         acceleration = Vector3 0 1 0, isFixed = True\<rparr>"
  using update_verlet [of 1
      "\<lparr>position = Vector3 1 1 1, oldPosition = Vector3 0 0 0,
         acceleration = Vector3 0 0 0, isFixed = False, mass = 2, pinned = False\<rparr>"
      "\<lparr>position = Vector3 1 1 1, oldPosition = Vector3 0 0 0,
         acceleration = Vector3 0 1 0, isFixed = True\<rparr>"
      "[Vector3 0 2 0]"]
  by (simp add: DAMPING_adv_def)

lemma selfCollisionPair_length: "length (selfCollisionPair i j vs) = length vs"
  by (simp add: selfCollisionPair_def Let_def)

lemma selfCollisionPair_acceleration:
  "acceleration (selfCollisionPair i j vs ! k) = acceleration (vs ! k)"
  by (simp add: selfCollisionPair_def Let_def nth_update_field)

lemma selfCollisionLoop_length: "length (selfCollisionLoop i j n vs) = length vs"
proof (induction i j n vs rule: selfCollisionLoop.induct)
  case (1 i j n vs)
  then show ?case
    by (subst selfCollisionLoop.simps) (simp add: selfCollisionPair_length)
qed

lemma selfCollisionLoop_acceleration:
  "acceleration (selfCollisionLoop i j n vs ! k) = acceleration (vs ! k)"
proof (induction i j n vs rule: selfCollisionLoop.induct)
  case (1 i j n vs)
  then show ?case
    by (subst selfCollisionLoop.simps) (simp add: selfCollisionPair_acceleration)
qed

lemma sphereCollision_acceleration: "acceleration (sphereCollision s v) = acceleration v"
  by (simp add: sphereCollision_def Let_def)

lemma sphereCollision_adv_acceleration: "acceleration (sphereCollision_adv s v) = acceleration v"
  by (simp add: sphereCollision_adv_def Let_def)

lemma windForce_zero: "windForce time 0 p = Vector3 0 0 0"
  by (simp add: windForce_def)

lemma windForce_adv_zero: "windForce_adv time 0 p = Vector3 0 0 0"
  by (simp add: windForce_adv_def)

text \<open>
  Claim C9. With wind intensity 0 the wind force is the zero vector at every time and
  position, in both cloths, and the force pass adds exactly gravity to the acceleration
  of a free particle (divided by the mass, which is not zero, in the advanced cloth).
\<close>
theorem zero_wind:
  "windForce time 0 p = Vector3 0 0 0
   \<and> windForce_adv time 0 p = Vector3 0 0 0
   \<and> (windIntensity props = 0 \<and> \<not> isFixed w \<longrightarrow>
        acceleration (applyForces props time s w) = add_v (acceleration w) (Vector3 0 GRAVITY 0))
   \<and> (windIntensity aprops = 0 \<and> i < length vs \<and> \<not> isFixed (vs ! i) \<and> \<not> pinned (vs ! i)
       \<and> mass (vs ! i) \<noteq> 0 \<longrightarrow>
        acceleration (applyForces_adv aprops time a fc i vs ! i) =
          add_v (acceleration (vs ! i)) (Vector3 0 (GRAVITY_adv / mass (vs ! i)) 0))"
  by (simp add: windForce_zero windForce_adv_zero applyForces_def applyForces_adv_def Let_def
        sphereCollision_acceleration sphereCollision_adv_acceleration
        selfCollisionLoop_acceleration VerletVertex_addForce_def
        AdvancedVerletVertex_addForce_def add_v_def divideScalar_def multiplyScalar_def)

text \<open>The theorem at time 7 for one free particle of each cloth.\<close>
theorem zero_wind_witness:
  "windIntensity \<lparr>showSphere = False, windIntensity = 0\<rparr> = 0
   \<and> acceleration (applyForces \<lparr>showSphere = False, windIntensity = 0\<rparr> 7
        \<lparr>sposition = Vector3 0 0 0, radius = 0.25\<rparr>
        \<lparr>position = Vector3 1 2 3, oldPosition = Vector3 1 2 3,
         acceleration = Vector3 0 0 0, isFixed = False\<rparr>) = Vector3 0 (- 0.0098) 0
   \<and> acceleration (applyForces_adv \<lparr>showSphere = False, windIntensity = 0, enableTearing = False\<rparr>
        7 \<lparr>sposition = Vector3 0 0 0, radius = 0.3, lastPosition = Vector3 0 0 0\<rparr> 1 0
        [\<lparr>position = Vector3 1 2 3, oldPosition = Vector3 1 2 3,
          acceleration = Vector3 0 0 0, isFixed = False, mass = 2, pinned = False\<rparr>] ! 0)
     = Vector3 0 (- 0.0049) 0"
  using zero_wind [of 7 "Vector3 1 2 3" "\<lparr>showSphere = False, windIntensity = 0\<rparr>"
      "\<lparr>position = Vector3 1 2 3, oldPosition = Vector3 1 2 3,
         acceleration = Vector3 0 0 0, isFixed = False\<rparr>"
      "\<lparr>sposition = Vector3 0 0 0, radius = 0.25\<rparr>"
      "\<lparr>showSphere = False, windIntensity = 0, enableTearing = False\<rparr>"
      0
      "[\<lparr>position = Vector3 1 2 3, oldPosition = Vector3 1 2 3,
          acceleration = Vector3 0 0 0, isFixed = False, mass = 2, pinned = False\<rparr>]"
      "\<lparr>sposition = Vector3 0 0 0, radius = 0.3, lastPosition = Vector3 0 0 0\<rparr>" 1]
  by (simp add: add_v_def GRAVITY_def GRAVITY_adv_def)

text \<open>
  Claim C5, as the code has it. A particle whose distance \<open>d\<close> from the sphere centre of
  this frame satisfies \<open>0 < d < radius + margin\<close> is moved by the sphere collision to
  distance exactly \<open>radius + margin\<close> from that centre; the margin is 0.05 in the basic
  cloth and 0.08 in the advanced cloth. A particle at the centre itself (\<open>d = 0\<close>) is
  returned unchanged by both collisions: the advanced cloth guards \<open>distance > 0\<close>, and in
  the basic cloth the normalised zero vector is the zero vector.
\<close>
theorem sphere_pushes_to_min_distance:
  "(0 < length_v (sub_v (position w) (sposition s)) \<and>
    length_v (sub_v (position w) (sposition s)) < radius s + 0.05
      \<longrightarrow> length_v (sub_v (position (sphereCollision s w)) (sposition s)) = radius s + 0.05)
   \<and> (0 < length_v (sub_v (position v) (sposition a)) \<and>
    length_v (sub_v (position v) (sposition a)) < radius a + 0.08
      \<longrightarrow> length_v (sub_v (position (sphereCollision_adv a v)) (sposition a)) = radius a + 0.08)
   \<and> (length_v (sub_v (position w) (sposition s)) = 0 \<longrightarrow> sphereCollision s w = w)
   \<and> (length_v (sub_v (position v) (sposition a)) = 0 \<longrightarrow> sphereCollision_adv a v = v)"
  by (simp add: sphereCollision_def sphereCollision_adv_def Let_def sub_add_assoc_v
        push_out_length length_v_zero_iff normalize_v_zero
        multiplyScalar_zero add_v_zero length_v_zero)

text \<open>
  Claim C5 as stated fails at \<open>d = 0\<close>: a particle at the sphere centre stays there in
  both cloths.
\<close>
theorem sphere_centre_counterexample:
  "length_v (sub_v (position \<lparr>position = Vector3 0 0 0, oldPosition = Vector3 0 0 0,
                              acceleration = Vector3 0 0 0, isFixed = False\<rparr>)
                   (sposition \<lparr>sposition = Vector3 0 0 0, radius = 0.25\<rparr>))
     < radius \<lparr>sposition = Vector3 0 0 0, radius = 0.25\<rparr> + 0.05
   \<and> length_v (sub_v (position (sphereCollision \<lparr>sposition = Vector3 0 0 0, radius = 0.25\<rparr>
                        \<lparr>position = Vector3 0 0 0, oldPosition = Vector3 0 0 0,
                         acceleration = Vector3 0 0 0, isFixed = False\<rparr>))
                   (sposition \<lparr>sposition = Vector3 0 0 0, radius = 0.25\<rparr>))
     \<noteq> radius \<lparr>sposition = Vector3 0 0 0, radius = 0.25\<rparr> + 0.05
   \<and> length_v (sub_v (position (sphereCollision_adv
                        \<lparr>sposition = Vector3 0 0 0, radius = 0.3, lastPosition = Vector3 0 0 0\<rparr>
                        \<lparr>position = Vector3 0 0 0, oldPosition = Vector3 0 0 0,
                         acceleration = Vector3 0 0 0, isFixed = False, mass = 1,
                         pinned = False\<rparr>))
                   (Vector3 0 0 0))
     \<noteq> 0.3 + 0.08"
  by (simp add: sphereCollision_def sphereCollision_adv_def Let_def sub_v_def add_v_def
        normalize_v_zero multiplyScalar_def length_v_axis)

text \<open>The theorem at a particle 0.1 away from the centre and at a particle at the centre.\<close>
theorem sphere_pushes_to_min_distance_witness:
  "0 < length_v (sub_v (Vector3 0.1 0 0) (Vector3 0 0 0))
   \<and> length_v (sub_v (Vector3 0.1 0 0) (Vector3 0 0 0)) < 0.25 + 0.05
   \<and> length_v (sub_v (position (sphereCollision \<lparr>sposition = Vector3 0 0 0, radius = 0.25\<rparr>
                        \<lparr>position = Vector3 0.1 0 0, oldPosition = Vector3 0 0 0,
        acceleration = Vector3 0 0 0, isFixed = False\<rparr>))
                   (Vector3 0 0 0)) = 0.3
   \<and> length_v (sub_v (position (sphereCollision_adv
                        \<lparr>sposition = Vector3 0 0 0, radius = 0.3, lastPosition = Vector3 0 0 0\<rparr>
                        \<lparr>position = Vector3 0.1 0 0, oldPosition = Vector3 0 0 0,
        acceleration = Vector3 0 0 0, isFixed = False, mass = 1, pinned = False\<rparr>))
                   (Vector3 0 0 0)) = 0.38
   \<and> length_v (sub_v (Vector3 0 0 0) (Vector3 0 0 0)) = 0
   \<and> sphereCollision \<lparr>sposition = Vector3 0 0 0, radius = 0.25\<rparr>
       \<lparr>position = Vector3 0 0 0, oldPosition = Vector3 0 0 0,
        acceleration = Vector3 0 0 0, isFixed = False\<rparr>
     = \<lparr>position = Vector3 0 0 0, oldPosition = Vector3 0 0 0,
        acceleration = Vector3 0 0 0, isFixed = False\<rparr>
   \<and> sphereCollision_adv \<lparr>sposition = Vector3 0 0 0, radius = 0.3, lastPosition = Vector3 0 0 0\<rparr>
       \<lparr>position = Vector3 0 0 0, oldPosition = Vector3 0 0 0,
        acceleration = Vector3 0 0 0, isFixed = False, mass = 1, pinned = False\<rparr>
     = \<lparr>position = Vector3 0 0 0, oldPosition = Vector3 0 0 0,
        acceleration = Vector3 0 0 0, isFixed = False, mass = 1, pinned = False\<rparr>"
  using sphere_pushes_to_min_distance [where
      w = "\<lparr>position = Vector3 0.1 0 0, oldPosition = Vector3 0 0 0,
        acceleration = Vector3 0 0 0, isFixed = False\<rparr>"
      and s = "\<lparr>sposition = Vector3 0 0 0, radius = 0.25\<rparr>"
      and v = "\<lparr>position = Vector3 0.1 0 0, oldPosition = Vector3 0 0 0,
        acceleration = Vector3 0 0 0, isFixed = False, mass = 1, pinned = False\<rparr>"
      and a = "\<lparr>sposition = Vector3 0 0 0, radius = 0.3, lastPosition = Vector3 0 0 0\<rparr>"]
    sphere_pushes_to_min_distance [where
      w = "\<lparr>position = Vector3 0 0 0, oldPosition = Vector3 0 0 0,
        acceleration = Vector3 0 0 0, isFixed = False\<rparr>"
      and s = "\<lparr>sposition = Vector3 0 0 0, radius = 0.25\<rparr>"
      and v = "\<lparr>position = Vector3 0 0 0, oldPosition = Vector3 0 0 0,
        acceleration = Vector3 0 0 0, isFixed = False, mass = 1, pinned = False\<rparr>"
      and a = "\<lparr>sposition = Vector3 0 0 0, radius = 0.3, lastPosition = Vector3 0 0 0\<rparr>"]
  by (simp add: sub_v_def length_v_axis)

section \<open>One call of satisfy\<close>

lemma stretched_delta:
  "sub_v (add_v pb (multiplyScalar b (multiplyScalar k (sub_v pb pa))))
         (sub_v pa (multiplyScalar a (multiplyScalar k (sub_v pb pa))))
   = multiplyScalar (1 + (a + b) * k) (sub_v pb pa)"
  by (simp add: sub_v_def add_v_def multiplyScalar_def algebra_simps)

lemma stretched_delta_basic:
  "sub_v (add_v pb (multiplyScalar k (sub_v pb pa))) (sub_v pa (multiplyScalar k (sub_v pb pa)))
   = multiplyScalar (1 + 2 * k) (sub_v pb pa)"
  by (simp add: sub_v_def add_v_def multiplyScalar_def algebra_simps)

text \<open>What satisfy does to two free particles when it neither tears nor skips.\<close>

lemma satisfy_adv_free:
  assumes "v1 c < length vs" "v2 c < length vs" "v1 c \<noteq> v2 c"
    and "\<not> isFixed (vs ! v1 c)" "\<not> pinned (vs ! v1 c)"
    and "\<not> isFixed (vs ! v2 c)" "\<not> pinned (vs ! v2 c)"
    and "active c"
    and "length_v (sub_v (position (vs ! v2 c)) (position (vs ! v1 c))) \<noteq> 0"
    and "length_v (sub_v (position (vs ! v2 c)) (position (vs ! v1 c)))
           \<le> restLength c * TEAR_THRESHOLD \<or> restLength c \<le> 0.1"
  shows "AdvancedVerletConstraint_satisfy c vs =
     (c, vs[v1 c := (vs ! v1 c)\<lparr>position := sub_v (position (vs ! v1 c))
              (multiplyScalar (mass (vs ! v2 c) / (mass (vs ! v1 c) + mass (vs ! v2 c)))
                 (multiplyScalar
                    ((restLength c - length_v (sub_v (position (vs ! v2 c)) (position (vs ! v1 c))))
                       / length_v (sub_v (position (vs ! v2 c)) (position (vs ! v1 c)))
                       * stiffness c * 0.5)
                    (sub_v (position (vs ! v2 c)) (position (vs ! v1 c)))))\<rparr>,
            v2 c := (vs ! v2 c)\<lparr>position := add_v (position (vs ! v2 c))
              (multiplyScalar (mass (vs ! v1 c) / (mass (vs ! v1 c) + mass (vs ! v2 c)))
                 (multiplyScalar
                    ((restLength c - length_v (sub_v (position (vs ! v2 c)) (position (vs ! v1 c))))
                       / length_v (sub_v (position (vs ! v2 c)) (position (vs ! v1 c)))
                       * stiffness c * 0.5)
                    (sub_v (position (vs ! v2 c)) (position (vs ! v1 c)))))\<rparr>])"
  using assms
  by (auto simp add: AdvancedVerletConstraint_satisfy_def Let_def)

lemma satisfy_adv_noop:
  assumes "\<not> active c
     \<or> (length_v (sub_v (position (vs ! v2 c)) (position (vs ! v1 c)))
           > restLength c * TEAR_THRESHOLD \<and> restLength c > 0.1)
     \<or> length_v (sub_v (position (vs ! v2 c)) (position (vs ! v1 c))) = 0"
  shows "snd (AdvancedVerletConstraint_satisfy c vs) = vs"
  using assms
  by (auto simp add: AdvancedVerletConstraint_satisfy_def Let_def)

lemma satisfy_adv_displacements:
  assumes "v1 c < length vs" "v2 c < length vs" "v1 c \<noteq> v2 c"
    and "\<not> isFixed (vs ! v1 c)" "\<not> pinned (vs ! v1 c)"
    and "\<not> isFixed (vs ! v2 c)" "\<not> pinned (vs ! v2 c)"
  shows "\<exists>off.
      length_v (sub_v (position (snd (AdvancedVerletConstraint_satisfy c vs) ! v1 c))
                      (position (vs ! v1 c)))
        = \<bar>mass (vs ! v2 c) / (mass (vs ! v1 c) + mass (vs ! v2 c))\<bar> * off
    \<and> length_v (sub_v (position (snd (AdvancedVerletConstraint_satisfy c vs) ! v2 c))
                      (position (vs ! v2 c)))
        = \<bar>mass (vs ! v1 c) / (mass (vs ! v1 c) + mass (vs ! v2 c))\<bar> * off"
proof (cases "\<not> active c
     \<or> (length_v (sub_v (position (vs ! v2 c)) (position (vs ! v1 c)))
           > restLength c * TEAR_THRESHOLD \<and> restLength c > 0.1)
     \<or> length_v (sub_v (position (vs ! v2 c)) (position (vs ! v1 c))) = 0")
  case True
  then have "snd (AdvancedVerletConstraint_satisfy c vs) = vs"
    by (rule satisfy_adv_noop)
  then show ?thesis
    by (intro exI[of _ 0]) (simp add: sub_v_self length_v_zero)
next
  case False
  then have "active c"
    and "length_v (sub_v (position (vs ! v2 c)) (position (vs ! v1 c))) \<noteq> 0"
    and "length_v (sub_v (position (vs ! v2 c)) (position (vs ! v1 c)))
           \<le> restLength c * TEAR_THRESHOLD \<or> restLength c \<le> 0.1"
    by auto
  note free = satisfy_adv_free[OF assms this]
  define off where "off = multiplyScalar
                    ((restLength c - length_v (sub_v (position (vs ! v2 c)) (position (vs ! v1 c))))
                       / length_v (sub_v (position (vs ! v2 c)) (position (vs ! v1 c)))
                       * stiffness c * 0.5)
                    (sub_v (position (vs ! v2 c)) (position (vs ! v1 c)))"
  have "position (snd (AdvancedVerletConstraint_satisfy c vs) ! v1 c) =
          sub_v (position (vs ! v1 c))
              (multiplyScalar (mass (vs ! v2 c) / (mass (vs ! v1 c) + mass (vs ! v2 c))) off)"
    and "position (snd (AdvancedVerletConstraint_satisfy c vs) ! v2 c) =
          add_v (position (vs ! v2 c))
              (multiplyScalar (mass (vs ! v1 c) / (mass (vs ! v1 c) + mass (vs ! v2 c))) off)"
    unfolding off_def free using assms(1-3) by simp_all
  then show ?thesis
    by (intro exI[of _ "length_v off"])
       (simp add: sub_add_cancel_v sub_sub_cancel_v length_v_neg length_v_multiplyScalar)
qed

text \<open>
  Whatever branch \<open>satisfy\<close> takes, the two displacements weighted by the masses agree;
  in the branch that relaxes the constraint they are not zero and their ratio is the
  inverse ratio of the masses.
\<close>

lemma displacement_products_agree:
  assumes "v1 c < length vs" "v2 c < length vs" "v1 c \<noteq> v2 c"
    and "\<not> isFixed (vs ! v1 c)" "\<not> pinned (vs ! v1 c)"
    and "\<not> isFixed (vs ! v2 c)" "\<not> pinned (vs ! v2 c)"
    and "0 < mass (vs ! v1 c)" "0 < mass (vs ! v2 c)"
  shows "mass (vs ! v1 c)
           * length_v (sub_v (position (snd (AdvancedVerletConstraint_satisfy c vs) ! v1 c))
                             (position (vs ! v1 c)))
         = mass (vs ! v2 c)
           * length_v (sub_v (position (snd (AdvancedVerletConstraint_satisfy c vs) ! v2 c))
                             (position (vs ! v2 c)))
     \<and> (length_v (sub_v (position (snd (AdvancedVerletConstraint_satisfy c vs) ! v2 c))
                         (position (vs ! v2 c))) \<noteq> 0 \<longrightarrow>
         length_v (sub_v (position (snd (AdvancedVerletConstraint_satisfy c vs) ! v1 c))
                         (position (vs ! v1 c)))
           / length_v (sub_v (position (snd (AdvancedVerletConstraint_satisfy c vs) ! v2 c))
                             (position (vs ! v2 c)))
         = mass (vs ! v2 c) / mass (vs ! v1 c))"
proof -
  define a where "a = length_v (sub_v (position (snd (AdvancedVerletConstraint_satisfy c vs) ! v1 c))
                             (position (vs ! v1 c)))"
  define b where "b = length_v (sub_v (position (snd (AdvancedVerletConstraint_satisfy c vs) ! v2 c))
                             (position (vs ! v2 c)))"
  define ma where "ma = mass (vs ! v1 c)"
  define mb where "mb = mass (vs ! v2 c)"
  from satisfy_adv_displacements[OF assms(1-7)]
  obtain off where "a = \<bar>mb / (ma + mb)\<bar> * off" "b = \<bar>ma / (ma + mb)\<bar> * off"
    unfolding a_def b_def ma_def mb_def by blast
  moreover have pos: "0 < ma" "0 < mb" using assms(8,9) by (simp_all add: ma_def mb_def)
  ultimately have ab: "a = mb / (ma + mb) * off" "b = ma / (ma + mb) * off"
    by simp_all
  have eq: "ma * a = mb * b"
    by (simp add: ab)
  have "b \<noteq> 0 \<longrightarrow> a / b = mb / ma"
    using eq pos by (simp add: field_simps)
  with eq show ?thesis
    unfolding a_def b_def ma_def mb_def by simp
qed

lemma mass_weighted_ratio:
  assumes "v1 c < length vs" "v2 c < length vs" "v1 c \<noteq> v2 c"
    and "\<not> isFixed (vs ! v1 c)" "\<not> pinned (vs ! v1 c)"
    and "\<not> isFixed (vs ! v2 c)" "\<not> pinned (vs ! v2 c)"
    and "active c"
    and "length_v (sub_v (position (vs ! v2 c)) (position (vs ! v1 c))) \<noteq> 0"
    and "length_v (sub_v (position (vs ! v2 c)) (position (vs ! v1 c)))
           \<le> restLength c * TEAR_THRESHOLD \<or> restLength c \<le> 0.1"
    and "0 < mass (vs ! v1 c)" "0 < mass (vs ! v2 c)"
    and "length_v (sub_v (position (vs ! v2 c)) (position (vs ! v1 c))) \<noteq> restLength c"
    and "stiffness c \<noteq> 0"
  shows "length_v (sub_v (position (snd (AdvancedVerletConstraint_satisfy c vs) ! v2 c))
                         (position (vs ! v2 c))) \<noteq> 0"
    and "length_v (sub_v (position (snd (AdvancedVerletConstraint_satisfy c vs) ! v1 c))
                         (position (vs ! v1 c)))
           / length_v (sub_v (position (snd (AdvancedVerletConstraint_satisfy c vs) ! v2 c))
                             (position (vs ! v2 c)))
         = mass (vs ! v2 c) / mass (vs ! v1 c)"
proof -
  define delta where "delta = sub_v (position (vs ! v2 c)) (position (vs ! v1 c))"
  define d where "d = length_v delta"
  define k where "k = (restLength c - d) / d * stiffness c * 0.5"
  define ma where "ma = mass (vs ! v1 c)"
  define mb where "mb = mass (vs ! v2 c)"
  have dpos: "0 < d"
    using assms(9) length_v_nonneg[of delta] by (simp add: d_def delta_def)
  have knz: "k \<noteq> 0"
    using dpos assms(13,14) by (simp add: k_def d_def delta_def)
  have pos: "0 < ma" "0 < mb" using assms(11,12) by (simp_all add: ma_def mb_def)
  note free = satisfy_adv_free[OF assms(1-10)]
  have p1: "position (snd (AdvancedVerletConstraint_satisfy c vs) ! v1 c) =
          sub_v (position (vs ! v1 c)) (multiplyScalar (mb / (ma + mb)) (multiplyScalar k delta))"
    and p2: "position (snd (AdvancedVerletConstraint_satisfy c vs) ! v2 c) =
          add_v (position (vs ! v2 c)) (multiplyScalar (ma / (ma + mb)) (multiplyScalar k delta))"
    unfolding free k_def d_def delta_def ma_def mb_def using assms(1-3) by simp_all
  have a: "length_v (sub_v (position (snd (AdvancedVerletConstraint_satisfy c vs) ! v1 c))
                         (position (vs ! v1 c))) = mb / (ma + mb) * (\<bar>k\<bar> * d)"
    unfolding p1 sub_sub_cancel_v length_v_neg
    using pos by (simp add: length_v_multiplyScalar d_def)
  have b: "length_v (sub_v (position (snd (AdvancedVerletConstraint_satisfy c vs) ! v2 c))
                         (position (vs ! v2 c))) = ma / (ma + mb) * (\<bar>k\<bar> * d)"
    unfolding p2 sub_add_cancel_v
    using pos by (simp add: length_v_multiplyScalar d_def)
  have kd: "0 < \<bar>k\<bar> * d" using knz dpos by simp
  show "length_v (sub_v (position (snd (AdvancedVerletConstraint_satisfy c vs) ! v2 c))
                         (position (vs ! v2 c))) \<noteq> 0"
    unfolding b using pos knz dpos by simp
  show "length_v (sub_v (position (snd (AdvancedVerletConstraint_satisfy c vs) ! v1 c))
                         (position (vs ! v1 c)))
           / length_v (sub_v (position (snd (AdvancedVerletConstraint_satisfy c vs) ! v2 c))
                             (position (vs ! v2 c)))
         = mass (vs ! v2 c) / mass (vs ! v1 c)"
  proof -
    define q where "q = \<bar>k\<bar> * d / (ma + mb)"
    have q: "q \<noteq> 0" using pos knz dpos by (simp add: q_def)
    have "mb / (ma + mb) * (\<bar>k\<bar> * d) = mb * q" "ma / (ma + mb) * (\<bar>k\<bar> * d) = ma * q"
      by (simp_all add: q_def)
    then have "mb / (ma + mb) * (\<bar>k\<bar> * d) / (ma / (ma + mb) * (\<bar>k\<bar> * d)) = mb / ma"
      using q by simp
    then show ?thesis
      unfolding a b ma_def mb_def by simp
  qed
qed

text \<open>
  Claim C6 says that one solver pass displaces the two free particles of a constraint in
  the ratio \<open>m2 / m1\<close>. The mass weights of \<open>satisfy\<close> do that wherever the call relaxes
  the constraint, but for a constraint of rest length above 0.1 the call first tests
  \<open>distance > restLength * TEAR_THRESHOLD\<close> with \<open>TEAR_THRESHOLD = 0.8\<close>, and a stretched
  constraint is deactivated instead of relaxed. Below, rest length 1, distance 2, masses
  1 and 2: the call returns both particles where they were.
\<close>
theorem torn_constraint_displaces_nothing:
  "snd (AdvancedVerletConstraint_satisfy
          \<lparr>v1 = 0, v2 = 1, restLength = 1, stiffness = 0.5, active = True\<rparr>
          [\<lparr>position = Vector3 0 0 0, oldPosition = Vector3 0 0 0,
            acceleration = Vector3 0 0 0, isFixed = False, mass = 1, pinned = False\<rparr>,
           \<lparr>position = Vector3 2 0 0, oldPosition = Vector3 2 0 0,
            acceleration = Vector3 0 0 0, isFixed = False, mass = 2, pinned = False\<rparr>])
     = [\<lparr>position = Vector3 0 0 0, oldPosition = Vector3 0 0 0,
         acceleration = Vector3 0 0 0, isFixed = False, mass = 1, pinned = False\<rparr>,
        \<lparr>position = Vector3 2 0 0, oldPosition = Vector3 2 0 0,
         acceleration = Vector3 0 0 0, isFixed = False, mass = 2, pinned = False\<rparr>]
   \<and> \<not> active (fst (AdvancedVerletConstraint_satisfy
          \<lparr>v1 = 0, v2 = 1, restLength = 1, stiffness = 0.5, active = True\<rparr>
          [\<lparr>position = Vector3 0 0 0, oldPosition = Vector3 0 0 0,
            acceleration = Vector3 0 0 0, isFixed = False, mass = 1, pinned = False\<rparr>,
           \<lparr>position = Vector3 2 0 0, oldPosition = Vector3 2 0 0,
            acceleration = Vector3 0 0 0, isFixed = False, mass = 2, pinned = False\<rparr>]))"
  by (simp add: AdvancedVerletConstraint_satisfy_def Let_def sub_v_def length_v_axis
        TEAR_THRESHOLD_def)

text \<open>
  The distance after a call that relaxes: the advanced cloth at equal masses, and the
  basic cloth.
\<close>

lemma satisfy_adv_equal_mass:
  assumes "v1 c < length vs" "v2 c < length vs" "v1 c \<noteq> v2 c"
    and "\<not> isFixed (vs ! v1 c)" "\<not> pinned (vs ! v1 c)"
    and "\<not> isFixed (vs ! v2 c)" "\<not> pinned (vs ! v2 c)"
    and "active c"
    and "mass (vs ! v1 c) = mass (vs ! v2 c)" "0 < mass (vs ! v1 c)"
    and "0 < length_v (sub_v (position (vs ! v2 c)) (position (vs ! v1 c)))"
    and "length_v (sub_v (position (vs ! v2 c)) (position (vs ! v1 c)))
           \<le> restLength c * TEAR_THRESHOLD \<or> restLength c \<le> 0.1"
  shows "length_v (sub_v (position (snd (AdvancedVerletConstraint_satisfy c vs) ! v2 c))
                         (position (snd (AdvancedVerletConstraint_satisfy c vs) ! v1 c)))
         = \<bar>length_v (sub_v (position (vs ! v2 c)) (position (vs ! v1 c)))
            + (restLength c - length_v (sub_v (position (vs ! v2 c)) (position (vs ! v1 c))))
              * stiffness c / 2\<bar>"
    and "length_v (sub_v (position (snd (AdvancedVerletConstraint_satisfy c vs) ! v1 c))
                         (position (vs ! v1 c)))
         = \<bar>restLength c - length_v (sub_v (position (vs ! v2 c)) (position (vs ! v1 c)))\<bar>
            * \<bar>stiffness c\<bar> / 4"
    and "length_v (sub_v (position (snd (AdvancedVerletConstraint_satisfy c vs) ! v2 c))
                         (position (vs ! v2 c)))
         = \<bar>restLength c - length_v (sub_v (position (vs ! v2 c)) (position (vs ! v1 c)))\<bar>
            * \<bar>stiffness c\<bar> / 4"
proof -
  define delta where "delta = sub_v (position (vs ! v2 c)) (position (vs ! v1 c))"
  define d where "d = length_v delta"
  define k where "k = (restLength c - d) / d * stiffness c * 0.5"
  have dpos: "0 < d" using assms(11) by (simp add: d_def delta_def)
  have half: "mass (vs ! v2 c) / (mass (vs ! v1 c) + mass (vs ! v2 c)) = 1 / 2"
             "mass (vs ! v1 c) / (mass (vs ! v1 c) + mass (vs ! v2 c)) = 1 / 2"
    using assms(9,10) by simp_all
  have nz: "length_v (sub_v (position (vs ! v2 c)) (position (vs ! v1 c))) \<noteq> 0"
    using assms(11) by simp
  note free = satisfy_adv_free[OF assms(1-8) nz assms(12)]
  have p1: "position (snd (AdvancedVerletConstraint_satisfy c vs) ! v1 c) =
          sub_v (position (vs ! v1 c)) (multiplyScalar (1 / 2) (multiplyScalar k delta))"
    and p2: "position (snd (AdvancedVerletConstraint_satisfy c vs) ! v2 c) =
          add_v (position (vs ! v2 c)) (multiplyScalar (1 / 2) (multiplyScalar k delta))"
    unfolding free k_def d_def delta_def using assms(1-3) half by simp_all
  have kd: "\<bar>k\<bar> * d = \<bar>restLength c - d\<bar> * \<bar>stiffness c\<bar> / 2"
    using dpos by (simp add: k_def abs_mult)
  have "sub_v (position (snd (AdvancedVerletConstraint_satisfy c vs) ! v2 c))
              (position (snd (AdvancedVerletConstraint_satisfy c vs) ! v1 c))
        = multiplyScalar (1 + (1 / 2 + 1 / 2) * k) delta"
    unfolding p1 p2 delta_def by (rule stretched_delta)
  then have "length_v (sub_v (position (snd (AdvancedVerletConstraint_satisfy c vs) ! v2 c))
              (position (snd (AdvancedVerletConstraint_satisfy c vs) ! v1 c)))
        = \<bar>1 + k\<bar> * d"
    by (simp add: length_v_multiplyScalar d_def)
  also have "\<dots> = \<bar>(1 + k) * d\<bar>" using dpos by (simp add: abs_mult)
  also have "(1 + k) * d = d + (restLength c - d) * stiffness c / 2"
    using dpos by (simp add: k_def field_simps)
  finally show "length_v (sub_v (position (snd (AdvancedVerletConstraint_satisfy c vs) ! v2 c))
                         (position (snd (AdvancedVerletConstraint_satisfy c vs) ! v1 c)))
         = \<bar>length_v (sub_v (position (vs ! v2 c)) (position (vs ! v1 c)))
            + (restLength c - length_v (sub_v (position (vs ! v2 c)) (position (vs ! v1 c))))
              * stiffness c / 2\<bar>"
    by (simp add: d_def delta_def)
  have "length_v (multiplyScalar (1 / 2) (multiplyScalar k delta)) = \<bar>k\<bar> * d / 2"
    by (simp add: length_v_multiplyScalar d_def)
  then have len: "length_v (multiplyScalar (1 / 2) (multiplyScalar k delta))
                  = \<bar>restLength c - d\<bar> * \<bar>stiffness c\<bar> / 4"
    using kd by simp
  show "length_v (sub_v (position (snd (AdvancedVerletConstraint_satisfy c vs) ! v1 c))
                         (position (vs ! v1 c)))
         = \<bar>restLength c - length_v (sub_v (position (vs ! v2 c)) (position (vs ! v1 c)))\<bar>
            * \<bar>stiffness c\<bar> / 4"
    unfolding p1 sub_sub_cancel_v length_v_neg len by (simp add: d_def delta_def)
  show "length_v (sub_v (position (snd (AdvancedVerletConstraint_satisfy c vs) ! v2 c))
                         (position (vs ! v2 c)))
         = \<bar>restLength c - length_v (sub_v (position (vs ! v2 c)) (position (vs ! v1 c)))\<bar>
            * \<bar>stiffness c\<bar> / 4"
    unfolding p2 sub_add_cancel_v len by (simp add: d_def delta_def)
qed

lemma satisfy_basic_free:
  assumes "v1 b < length ws" "v2 b < length ws" "v1 b \<noteq> v2 b"
    and "\<not> isFixed (ws ! v1 b)" "\<not> isFixed (ws ! v2 b)"
    and "0 < length_v (sub_v (position (ws ! v2 b)) (position (ws ! v1 b)))"
  shows "length_v (sub_v (position (VerletConstraint_satisfy b ws ! v2 b))
                         (position (VerletConstraint_satisfy b ws ! v1 b)))
         = \<bar>length_v (sub_v (position (ws ! v2 b)) (position (ws ! v1 b)))
            + (restLength b - length_v (sub_v (position (ws ! v2 b)) (position (ws ! v1 b))))
              * STIFFNESS\<bar>"
    and "length_v (sub_v (position (VerletConstraint_satisfy b ws ! v1 b)) (position (ws ! v1 b)))
         = \<bar>restLength b - length_v (sub_v (position (ws ! v2 b)) (position (ws ! v1 b)))\<bar>
            * STIFFNESS / 2"
    and "length_v (sub_v (position (VerletConstraint_satisfy b ws ! v2 b)) (position (ws ! v2 b)))
         = \<bar>restLength b - length_v (sub_v (position (ws ! v2 b)) (position (ws ! v1 b)))\<bar>
            * STIFFNESS / 2"
proof -
  define delta where "delta = sub_v (position (ws ! v2 b)) (position (ws ! v1 b))"
  define d where "d = length_v delta"
  define k where "k = (restLength b - d) / d * STIFFNESS * 0.5"
  have dpos: "0 < d" using assms(6) by (simp add: d_def delta_def)
  have p1: "position (VerletConstraint_satisfy b ws ! v1 b) =
          sub_v (position (ws ! v1 b)) (multiplyScalar k delta)"
    and p2: "position (VerletConstraint_satisfy b ws ! v2 b) =
          add_v (position (ws ! v2 b)) (multiplyScalar k delta)"
    using assms by (simp_all add: VerletConstraint_satisfy_def Let_def k_def d_def delta_def)
  have kd: "\<bar>k\<bar> * d = \<bar>restLength b - d\<bar> * STIFFNESS / 2"
  proof -
    have "0 \<le> STIFFNESS" by (simp add: STIFFNESS_def)
    then show ?thesis using dpos by (simp add: k_def abs_mult)
  qed
  have "sub_v (position (VerletConstraint_satisfy b ws ! v2 b))
              (position (VerletConstraint_satisfy b ws ! v1 b))
        = multiplyScalar (1 + 2 * k) delta"
    unfolding p1 p2 delta_def by (rule stretched_delta_basic)
  then have "length_v (sub_v (position (VerletConstraint_satisfy b ws ! v2 b))
              (position (VerletConstraint_satisfy b ws ! v1 b)))
        = \<bar>1 + 2 * k\<bar> * d"
    by (simp add: length_v_multiplyScalar d_def)
  also have "\<dots> = \<bar>(1 + 2 * k) * d\<bar>" using dpos by (simp add: abs_mult)
  also have "(1 + 2 * k) * d = d + (restLength b - d) * STIFFNESS"
    using dpos by (simp add: k_def field_simps)
  finally show "length_v (sub_v (position (VerletConstraint_satisfy b ws ! v2 b))
                         (position (VerletConstraint_satisfy b ws ! v1 b)))
         = \<bar>length_v (sub_v (position (ws ! v2 b)) (position (ws ! v1 b)))
            + (restLength b - length_v (sub_v (position (ws ! v2 b)) (position (ws ! v1 b))))
              * STIFFNESS\<bar>"
    by (simp add: d_def delta_def)
  have len: "length_v (multiplyScalar k delta) = \<bar>restLength b - d\<bar> * STIFFNESS / 2"
    using kd by (simp add: length_v_multiplyScalar d_def)
  show "length_v (sub_v (position (VerletConstraint_satisfy b ws ! v1 b)) (position (ws ! v1 b)))
         = \<bar>restLength b - length_v (sub_v (position (ws ! v2 b)) (position (ws ! v1 b)))\<bar>
            * STIFFNESS / 2"
    unfolding p1 sub_sub_cancel_v length_v_neg len by (simp add: d_def delta_def)
  show "length_v (sub_v (position (VerletConstraint_satisfy b ws ! v2 b)) (position (ws ! v2 b)))
         = \<bar>restLength b - length_v (sub_v (position (ws ! v2 b)) (position (ws ! v1 b)))\<bar>
            * STIFFNESS / 2"
    unfolding p2 sub_add_cancel_v len by (simp add: d_def delta_def)
qed

text \<open>
  Claim C3 is the scenario of two free particles of equal mass, rest length 1, stiffness
  0.5 and distance 2, which one call of \<open>satisfy\<close> should leave at distance 1.5. The
  advanced \<open>satisfy\<close> takes its tear branch there (\<open>2 > 1 * TEAR_THRESHOLD\<close> and
  \<open>1 > 0.1\<close>): the constraint is deactivated, no particle moves, and the distance after
  the call is still 2.
\<close>
theorem relaxation_scenario_torn:
  "length_v (sub_v
      (position (snd (AdvancedVerletConstraint_satisfy
          \<lparr>v1 = 0, v2 = 1, restLength = 1, stiffness = 0.5, active = True\<rparr>
          [\<lparr>position = Vector3 0 0 0, oldPosition = Vector3 0 0 0,
            acceleration = Vector3 0 0 0, isFixed = False, mass = 1, pinned = False\<rparr>,
           \<lparr>position = Vector3 2 0 0, oldPosition = Vector3 2 0 0,
            acceleration = Vector3 0 0 0, isFixed = False, mass = 1, pinned = False\<rparr>]) ! 1))
      (position (snd (AdvancedVerletConstraint_satisfy
          \<lparr>v1 = 0, v2 = 1, restLength = 1, stiffness = 0.5, active = True\<rparr>
          [\<lparr>position = Vector3 0 0 0, oldPosition = Vector3 0 0 0,
            acceleration = Vector3 0 0 0, isFixed = False, mass = 1, pinned = False\<rparr>,
           \<lparr>position = Vector3 2 0 0, oldPosition = Vector3 2 0 0,
            acceleration = Vector3 0 0 0, isFixed = False, mass = 1, pinned = False\<rparr>]) ! 0))) = 2
   \<and> \<not> active (fst (AdvancedVerletConstraint_satisfy
          \<lparr>v1 = 0, v2 = 1, restLength = 1, stiffness = 0.5, active = True\<rparr>
          [\<lparr>position = Vector3 0 0 0, oldPosition = Vector3 0 0 0,
            acceleration = Vector3 0 0 0, isFixed = False, mass = 1, pinned = False\<rparr>,
           \<lparr>position = Vector3 2 0 0, oldPosition = Vector3 2 0 0,
            acceleration = Vector3 0 0 0, isFixed = False, mass = 1, pinned = False\<rparr>]))"
  by (simp add: AdvancedVerletConstraint_satisfy_def Let_def sub_v_def length_v_axis
        TEAR_THRESHOLD_def)

section \<open>The active flag\<close>

lemma satisfy_adv_constraint:
  "fst (AdvancedVerletConstraint_satisfy c vs) = c
   \<or> (active c \<and> 0.1 < restLength c
        \<and> fst (AdvancedVerletConstraint_satisfy c vs) = c\<lparr>active := False\<rparr>)"
  by (simp add: AdvancedVerletConstraint_satisfy_def Let_def)

lemma solvePass_adv_constraints:
  "list_all2 (\<lambda>c c'. c' = c \<or> (active c \<and> 0.1 < restLength c \<and> c' = c\<lparr>active := False\<rparr>))
     cs (fst (solvePass_adv cs vs))"
proof (induction cs arbitrary: vs)
  case Nil
  then show ?case by simp
next
  case (Cons c cs)
  show ?case
    using satisfy_adv_constraint[of c vs] Cons.IH
    by (auto simp add: split_def Let_def)
qed

lemma relax_adv_constraints:
  "list_all2 (\<lambda>c c'. c' = c \<or> (active c \<and> 0.1 < restLength c \<and> c' = c\<lparr>active := False\<rparr>))
     cs (fst (relax_adv n cs vs))"
proof (induction n arbitrary: cs vs)
  case 0
  then show ?case by (simp add: list_all2_refl)
next
  case (Suc n)
  have step: "list_all2 (\<lambda>c c'. c' = c \<or> (active c \<and> 0.1 < restLength c \<and> c' = c\<lparr>active := False\<rparr>))
     cs (fst (solvePass_adv cs vs))"
    by (rule solvePass_adv_constraints)
  have rest: "list_all2 (\<lambda>c c'. c' = c \<or> (active c \<and> 0.1 < restLength c \<and> c' = c\<lparr>active := False\<rparr>))
     (fst (solvePass_adv cs vs))
     (fst (relax_adv n (fst (solvePass_adv cs vs)) (snd (solvePass_adv cs vs))))"
    by (rule Suc.IH)
  have "list_all2 (\<lambda>c c'. c' = c \<or> (active c \<and> 0.1 < restLength c \<and> c' = c\<lparr>active := False\<rparr>))
     cs (fst (relax_adv n (fst (solvePass_adv cs vs)) (snd (solvePass_adv cs vs))))"
    by (rule list_all2_trans[OF _ step rest]) auto
  then show ?case by (simp add: split_def Let_def)
qed

lemma tearCheck_constraints:
  "list_all2 (\<lambda>c c'. c' = c \<or> (active c \<and> c' = c\<lparr>active := False\<rparr>))
     cs (map (tearCheck vs) cs)"
  by (simp add: list_all2_map2 list_all2_refl tearCheck_def AdvancedVerletConstraint_tear_def
        Let_def)

lemma frame_constraints:
  "list_all2 (\<lambda>c c'. c' = c \<or> (active c \<and> c' = c\<lparr>active := False\<rparr>))
     (constraints st) (constraints (AdvancedClothSimulation_frame props time deltaTime st))"
proof (cases "meshRef st")
  case False
  then show ?thesis by (simp add: AdvancedClothSimulation_frame_def list_all2_refl)
next
  case True
  define moved where "moved = map (AdvancedVerletVertex_update deltaTime)
      (fold (applyForces_adv props time
               ((sphere st)\<lparr>lastPosition := sposition (sphere st),
                             sposition := spherePath_adv time\<rparr>) (frameCount st + 1))
         [0..<length (vertices st)] (vertices st))"
  define cs1 where "cs1 = fst (relax_adv 5 (constraints st) moved)"
  define relaxed where "relaxed = snd (relax_adv 5 (constraints st) moved)"
  have a: "list_all2 (\<lambda>c c'. c' = c \<or> (active c \<and> c' = c\<lparr>active := False\<rparr>))
             (constraints st) cs1"
    unfolding cs1_def
    by (rule list_all2_mono[OF relax_adv_constraints]) auto
  have b: "list_all2 (\<lambda>c c'. c' = c \<or> (active c \<and> c' = c\<lparr>active := False\<rparr>))
             cs1 (map (tearCheck relaxed) cs1)"
    by (rule tearCheck_constraints)
  have c: "list_all2 (\<lambda>c c'. c' = c \<or> (active c \<and> c' = c\<lparr>active := False\<rparr>))
             (constraints st) (map (tearCheck relaxed) cs1)"
    by (rule list_all2_trans[OF _ a b]) auto
  have "constraints (AdvancedClothSimulation_frame props time deltaTime st) =
          (if enableTearing props \<and> (frameCount st + 1) mod 60 = 0
           then map (tearCheck relaxed) cs1 else cs1)"
    using True
    by (simp add: AdvancedClothSimulation_frame_def Let_def split_def cs1_def relaxed_def
          moved_def)
  with a c show ?thesis by simp
qed

lemma frame_keeps_inactive:
  assumes "k < length (constraints st)" "\<not> active (constraints st ! k)"
  shows "k < length (constraints (AdvancedClothSimulation_frame props time deltaTime st))
         \<and> \<not> active (constraints (AdvancedClothSimulation_frame props time deltaTime st) ! k)"
  using frame_constraints[of st props time deltaTime] assms
  by (auto simp add: list_all2_conv_all_nth)

text \<open>
  Claim C8. Tearing is one-way: a constraint of the advanced cloth whose \<open>active\<close> flag
  is false keeps it false through any sequence of frames, whatever the props, times and
  frame lengths of these frames are and wherever its particles move.
\<close>
theorem tearing_is_permanent:
  "k < length (constraints st) \<Longrightarrow> \<not> active (constraints st ! k) \<Longrightarrow>
   k < length (constraints
         (fold (\<lambda>(props, time, deltaTime). AdvancedClothSimulation_frame props time deltaTime)
            inputs st))
   \<and> \<not> active (constraints
         (fold (\<lambda>(props, time, deltaTime). AdvancedClothSimulation_frame props time deltaTime)
            inputs st) ! k)"
proof (induction inputs arbitrary: st)
  case Nil
  then show ?case by simp
next
  case (Cons inp inputs)
  obtain props time deltaTime where inp: "inp = (props, time, deltaTime)"
    by (cases inp) auto
  from frame_keeps_inactive[OF Cons.prems, of props time deltaTime]
  have "k < length (constraints (AdvancedClothSimulation_frame props time deltaTime st))"
    and "\<not> active (constraints (AdvancedClothSimulation_frame props time deltaTime st) ! k)"
    by simp_all
  from Cons.IH[OF this] show ?case by (simp add: inp)
qed

text \<open>The theorem at an inactive constraint through two frames with tearing enabled.\<close>
theorem tearing_is_permanent_witness:
  "\<not> active (constraints \<lparr>meshRef = True,
        vertices = [\<lparr>position = Vector3 0 0 0, oldPosition = Vector3 0 0 0,
          acceleration = Vector3 0 0 0, isFixed = False, mass = 1, pinned = False\<rparr>,
         \<lparr>position = Vector3 1 0 0, oldPosition = Vector3 1 0 0,
          acceleration = Vector3 0 0 0, isFixed = False, mass = 1, pinned = False\<rparr>],
        constraints = [\<lparr>v1 = 0, v2 = 1, restLength = 1, stiffness = 0.5, active = False\<rparr>],
        sphere = \<lparr>sposition = Vector3 0 0 0, radius = 0.3, lastPosition = Vector3 0 0 0\<rparr>,
        frameCount = 59\<rparr> ! 0)
   \<and> \<not> active (constraints (fold (\<lambda>(props, time, deltaTime). AdvancedClothSimulation_frame props time deltaTime)
      [(\<lparr>showSphere = False, windIntensity = 0, enableTearing = True\<rparr>, 0, 1 / 60), (\<lparr>showSphere = False, windIntensity = 0, enableTearing = True\<rparr>, 1 / 60, 1 / 60)]
      \<lparr>meshRef = True,
        vertices = [\<lparr>position = Vector3 0 0 0, oldPosition = Vector3 0 0 0,
          acceleration = Vector3 0 0 0, isFixed = False, mass = 1, pinned = False\<rparr>,
         \<lparr>position = Vector3 1 0 0, oldPosition = Vector3 1 0 0,
          acceleration = Vector3 0 0 0, isFixed = False, mass = 1, pinned = False\<rparr>],
        constraints = [\<lparr>v1 = 0, v2 = 1, restLength = 1, stiffness = 0.5, active = False\<rparr>],
        sphere = \<lparr>sposition = Vector3 0 0 0, radius = 0.3, lastPosition = Vector3 0 0 0\<rparr>,
        frameCount = 59\<rparr>) ! 0)"
  using tearing_is_permanent
    [where k = 0 and st = "\<lparr>meshRef = True,
        vertices = [\<lparr>position = Vector3 0 0 0, oldPosition = Vector3 0 0 0,
          acceleration = Vector3 0 0 0, isFixed = False, mass = 1, pinned = False\<rparr>,
         \<lparr>position = Vector3 1 0 0, oldPosition = Vector3 1 0 0,
          acceleration = Vector3 0 0 0, isFixed = False, mass = 1, pinned = False\<rparr>],
        constraints = [\<lparr>v1 = 0, v2 = 1, restLength = 1, stiffness = 0.5, active = False\<rparr>],
        sphere = \<lparr>sposition = Vector3 0 0 0, radius = 0.3, lastPosition = Vector3 0 0 0\<rparr>,
        frameCount = 59\<rparr>"
       and inputs = "[(\<lparr>showSphere = False, windIntensity = 0, enableTearing = True\<rparr>, 0, 1 / 60), (\<lparr>showSphere = False, windIntensity = 0, enableTearing = True\<rparr>, 1 / 60, 1 / 60)]"]
  by simp

section \<open>Whole frames\<close>

lemma distanceTo_axis: "distanceTo (Vector3 a 0 0) (Vector3 b 0 0) = \<bar>a - b\<bar>"
  by (simp add: distanceTo_length sub_v_def length_v_axis)

lemma relax_adv_numeral:
  "relax_adv (numeral k) cs vs =
     (let (cs', vs') = solvePass_adv cs vs in relax_adv (pred_numeral k) cs' vs')"
  by (simp add: numeral_eq_Suc)





lemma frame_vertices:
  "meshRef st \<Longrightarrow>
   vertices (AdvancedClothSimulation_frame props time deltaTime st) =
     snd (relax_adv 5 (constraints st)
            (map (AdvancedVerletVertex_update deltaTime)
               (fold (applyForces_adv props time
                        ((sphere st)\<lparr>lastPosition := sposition (sphere st),
                                      sposition := spherePath_adv time\<rparr>)
                        (frameCount st + 1))
                  [0..<length (vertices st)] (vertices st))))"
  by (simp add: AdvancedClothSimulation_frame_def Let_def split_def)

lemma frame_constraints_eq:
  "meshRef st \<Longrightarrow>
   constraints (AdvancedClothSimulation_frame props time deltaTime st) =
     (if enableTearing props \<and> (frameCount st + 1) mod 60 = 0
      then map (tearCheck (vertices (AdvancedClothSimulation_frame props time deltaTime st)))
             (fst (relax_adv 5 (constraints st)
                (map (AdvancedVerletVertex_update deltaTime)
                   (fold (applyForces_adv props time
                        ((sphere st)\<lparr>lastPosition := sposition (sphere st),
                                      sposition := spherePath_adv time\<rparr>)
                        (frameCount st + 1))
                      [0..<length (vertices st)] (vertices st)))))
      else fst (relax_adv 5 (constraints st)
                (map (AdvancedVerletVertex_update deltaTime)
                   (fold (applyForces_adv props time
                        ((sphere st)\<lparr>lastPosition := sposition (sphere st),
                                      sposition := spherePath_adv time\<rparr>)
                        (frameCount st + 1))
                      [0..<length (vertices st)] (vertices st)))))"
  by (simp add: AdvancedClothSimulation_frame_def Let_def split_def)

text \<open>
  Claim C2 says that with \<open>enableTearing\<close> false no frame clears an \<open>active\<close> flag. The
  periodic check honours the prop, but \<open>satisfy\<close> clears the flag of every constraint of
  rest length above 0.1 whose particles are further apart than \<open>TEAR_THRESHOLD = 0.8\<close>
  times the rest length, and never looks at the prop. Below, two free particles and the
  constraint between them are as their constructors make them, so the particles are
  exactly at the rest length 1; tearing is disabled, and the first frame deactivates the
  constraint.
\<close>
theorem constraint_torn_with_tearing_disabled:
  "\<not> enableTearing \<lparr>showSphere = False, windIntensity = 0, enableTearing = False\<rparr>
   \<and> active (AdvancedVerletConstraint_new [AdvancedVerletVertex_new 0 0 0 False, AdvancedVerletVertex_new 1 0 0 False] 0 1 STIFFNESS_adv)
   \<and> restLength (AdvancedVerletConstraint_new [AdvancedVerletVertex_new 0 0 0 False, AdvancedVerletVertex_new 1 0 0 False] 0 1 STIFFNESS_adv) = 1
   \<and> \<not> active (constraints
     (AdvancedClothSimulation_frame
        \<lparr>showSphere = False, windIntensity = 0, enableTearing = False\<rparr> 0 (1 / 60)
        \<lparr>meshRef = True,
         vertices = [AdvancedVerletVertex_new 0 0 0 False, AdvancedVerletVertex_new 1 0 0 False],
         constraints = [AdvancedVerletConstraint_new [AdvancedVerletVertex_new 0 0 0 False, AdvancedVerletVertex_new 1 0 0 False] 0 1 STIFFNESS_adv],
         sphere = \<lparr>sposition = Vector3 0 0 0, radius = 0.3, lastPosition = Vector3 0 0 0\<rparr>,
         frameCount = 0\<rparr>) ! 0)"
  by (simp add: frame_vertices frame_constraints_eq applyForces_adv_def upt_conv_Cons
        AdvancedVerletVertex_new_def AdvancedVerletConstraint_new_def
        AdvancedVerletVertex_addForce_def windForce_adv_def AdvancedVerletVertex_update_def
        AdvancedVerletConstraint_satisfy_def tearCheck_def AdvancedVerletConstraint_tear_def
        distanceTo_axis length_v_axis add_v_def sub_v_def multiplyScalar_def divideScalar_def
        TEAR_THRESHOLD_def relax_adv_numeral Let_def)

section \<open>Short constraints\<close>

lemma satisfy_adv_short:
  "restLength c \<le> 0.1 \<Longrightarrow> fst (AdvancedVerletConstraint_satisfy c vs) = c"
  using satisfy_adv_constraint[of c vs] by auto

lemma satisfy_adv_short_funpow:
  assumes "restLength c \<le> 0.1"
  shows "fst (((\<lambda>(c', vs'). AdvancedVerletConstraint_satisfy c' vs') ^^ n) (c, vs)) = c"
proof (induction n)
  case 0
  then show ?case by simp
next
  case (Suc n)
  obtain vs' where "((\<lambda>(c', vs'). AdvancedVerletConstraint_satisfy c' vs') ^^ n) (c, vs) = (c, vs')"
    using Suc.IH by (cases "((\<lambda>(c', vs'). AdvancedVerletConstraint_satisfy c' vs') ^^ n) (c, vs)") auto
  then show ?case
    using assms by (simp add: satisfy_adv_short)
qed

lemma relax_adv_short:
  assumes "k < length cs" "restLength (cs ! k) \<le> 0.1"
  shows "fst (relax_adv n cs vs) ! k = cs ! k"
  using relax_adv_constraints[of cs n vs] assms
  by (auto simp add: list_all2_conv_all_nth)

lemma relax_adv_length: "length (fst (relax_adv n cs vs)) = length cs"
  using relax_adv_constraints[of cs n vs] by (simp add: list_all2_lengthD)

lemma frame_short_constraint:
  assumes "k < length (constraints st)" "restLength (constraints st ! k) \<le> 0.1"
    and "active (constraints st ! k)"
    and "\<not> active (constraints (AdvancedClothSimulation_frame props time deltaTime st) ! k)"
  shows "enableTearing props \<and> (frameCount st + 1) mod 60 = 0
     \<and> restLength (constraints st ! k) * 2.5
         < distanceTo
             (position (vertices (AdvancedClothSimulation_frame props time deltaTime st)
                          ! v1 (constraints st ! k)))
             (position (vertices (AdvancedClothSimulation_frame props time deltaTime st)
                          ! v2 (constraints st ! k)))"
proof -
  have mesh: "meshRef st"
    using assms(3,4) by (cases "meshRef st") (simp_all add: AdvancedClothSimulation_frame_def)
  define moved where "moved = map (AdvancedVerletVertex_update deltaTime)
                   (fold (applyForces_adv props time
                        ((sphere st)\<lparr>lastPosition := sposition (sphere st),
                                      sposition := spherePath_adv time\<rparr>)
                        (frameCount st + 1))
                      [0..<length (vertices st)] (vertices st))"
  have same: "fst (relax_adv 5 (constraints st) moved) ! k = constraints st ! k"
    using assms(1,2) by (rule relax_adv_short)
  have len: "k < length (fst (relax_adv 5 (constraints st) moved))"
    using assms(1) by (simp add: relax_adv_length)
  note eq = frame_constraints_eq[OF mesh, of props time deltaTime, folded moved_def]
  show ?thesis
  proof (cases "enableTearing props \<and> (frameCount st + 1) mod 60 = 0")
    case False
    then have "constraints (AdvancedClothSimulation_frame props time deltaTime st) ! k
                 = constraints st ! k"
      using eq same by auto
    with assms(3,4) show ?thesis by simp
  next
    case True
    then have "constraints (AdvancedClothSimulation_frame props time deltaTime st) ! k
         = tearCheck (vertices (AdvancedClothSimulation_frame props time deltaTime st))
             (constraints st ! k)"
      using eq same len by simp
    with assms(3,4) True show ?thesis
      by (auto simp add: tearCheck_def Let_def AdvancedVerletConstraint_tear_def
            split: if_splits)
  qed
qed

text \<open>
  Claim C10. A constraint of the advanced cloth with rest length at most 0.1 is returned
  unchanged, its \<open>active\<close> flag included, by any number of calls of \<open>satisfy\<close> and by any
  number of solver passes over a constraint list that contains it. When a frame turns
  such a constraint from active to inactive, tearing is enabled, the frame is a multiple
  of 60, and the distance between its particles at the end of the frame exceeds 2.5 times
  its rest length: the periodic check is the only path that deactivates it.
\<close>
theorem solver_never_tears_short_constraints:
  "(restLength c \<le> 0.1 \<longrightarrow>
      fst (((\<lambda>(c', vs'). AdvancedVerletConstraint_satisfy c' vs') ^^ n) (c, vs)) = c)
   \<and> (k < length cs \<and> restLength (cs ! k) \<le> 0.1 \<longrightarrow>
      fst (relax_adv n cs vs) ! k = cs ! k)
   \<and> (j < length (constraints st) \<and> restLength (constraints st ! j) \<le> 0.1
       \<and> active (constraints st ! j)
       \<and> \<not> active (constraints (AdvancedClothSimulation_frame props time deltaTime st) ! j)
      \<longrightarrow>
        enableTearing props \<and> (frameCount st + 1) mod 60 = 0
        \<and> restLength (constraints st ! j) * 2.5
            < distanceTo
                (position (vertices (AdvancedClothSimulation_frame props time deltaTime st)
                             ! v1 (constraints st ! j)))
                (position (vertices (AdvancedClothSimulation_frame props time deltaTime st)
                             ! v2 (constraints st ! j))))"
  using satisfy_adv_short_funpow[of c n vs] relax_adv_short[of k cs n vs]
    frame_short_constraint[of j st props time deltaTime]
  by blast

text \<open>
  The theorem at a constraint of rest length 0.1: three calls and three passes on two free
  particles keep it, and frame 60 with tearing enabled tears it between two fixed
  particles that are 1 apart.
\<close>
theorem solver_never_tears_short_constraints_witness:
  "restLength \<lparr>v1 = 0, v2 = 1, restLength = 0.1, stiffness = 0.5, active = True\<rparr> \<le> 0.1
   \<and> fst (((\<lambda>(c', vs'). AdvancedVerletConstraint_satisfy c' vs') ^^ 3)
        (\<lparr>v1 = 0, v2 = 1, restLength = 0.1, stiffness = 0.5, active = True\<rparr>,
         [\<lparr>position = Vector3 0 0 0, oldPosition = Vector3 0 0 0,
          acceleration = Vector3 0 0 0, isFixed = False, mass = 1, pinned = False\<rparr>,
         \<lparr>position = Vector3 1 0 0, oldPosition = Vector3 1 0 0,
          acceleration = Vector3 0 0 0, isFixed = False, mass = 1, pinned = False\<rparr>])) = \<lparr>v1 = 0, v2 = 1, restLength = 0.1, stiffness = 0.5, active = True\<rparr>
   \<and> fst (relax_adv 3 [\<lparr>v1 = 0, v2 = 1, restLength = 0.1, stiffness = 0.5, active = True\<rparr>]
         [\<lparr>position = Vector3 0 0 0, oldPosition = Vector3 0 0 0,
          acceleration = Vector3 0 0 0, isFixed = False, mass = 1, pinned = False\<rparr>,
         \<lparr>position = Vector3 1 0 0, oldPosition = Vector3 1 0 0,
          acceleration = Vector3 0 0 0, isFixed = False, mass = 1, pinned = False\<rparr>]) ! 0 = \<lparr>v1 = 0, v2 = 1, restLength = 0.1, stiffness = 0.5, active = True\<rparr>
   \<and> active (constraints \<lparr>meshRef = True,
        vertices = [\<lparr>position = Vector3 0 0 0, oldPosition = Vector3 0 0 0,
          acceleration = Vector3 0 0 0, isFixed = True, mass = 1, pinned = False\<rparr>,
         \<lparr>position = Vector3 1 0 0, oldPosition = Vector3 1 0 0,
          acceleration = Vector3 0 0 0, isFixed = True, mass = 1, pinned = False\<rparr>],
        constraints = [\<lparr>v1 = 0, v2 = 1, restLength = 0.1, stiffness = 0.5, active = True\<rparr>],
        sphere = \<lparr>sposition = Vector3 0 0 0, radius = 0.3, lastPosition = Vector3 0 0 0\<rparr>,
        frameCount = 59\<rparr> ! 0)
   \<and> \<not> active (constraints (AdvancedClothSimulation_frame \<lparr>showSphere = False, windIntensity = 0, enableTearing = True\<rparr> 0 (1 / 60)
      \<lparr>meshRef = True,
        vertices = [\<lparr>position = Vector3 0 0 0, oldPosition = Vector3 0 0 0,
          acceleration = Vector3 0 0 0, isFixed = True, mass = 1, pinned = False\<rparr>,
         \<lparr>position = Vector3 1 0 0, oldPosition = Vector3 1 0 0,
          acceleration = Vector3 0 0 0, isFixed = True, mass = 1, pinned = False\<rparr>],
        constraints = [\<lparr>v1 = 0, v2 = 1, restLength = 0.1, stiffness = 0.5, active = True\<rparr>],
        sphere = \<lparr>sposition = Vector3 0 0 0, radius = 0.3, lastPosition = Vector3 0 0 0\<rparr>,
        frameCount = 59\<rparr>) ! 0)
   \<and> (frameCount \<lparr>meshRef = True,
        vertices = [\<lparr>position = Vector3 0 0 0, oldPosition = Vector3 0 0 0,
          acceleration = Vector3 0 0 0, isFixed = True, mass = 1, pinned = False\<rparr>,
         \<lparr>position = Vector3 1 0 0, oldPosition = Vector3 1 0 0,
          acceleration = Vector3 0 0 0, isFixed = True, mass = 1, pinned = False\<rparr>],
        constraints = [\<lparr>v1 = 0, v2 = 1, restLength = 0.1, stiffness = 0.5, active = True\<rparr>],
        sphere = \<lparr>sposition = Vector3 0 0 0, radius = 0.3, lastPosition = Vector3 0 0 0\<rparr>,
        frameCount = 59\<rparr> + 1) mod 60 = 0"
  using solver_never_tears_short_constraints
    [where c = "\<lparr>v1 = 0, v2 = 1, restLength = 0.1, stiffness = 0.5, active = True\<rparr>" and n = 3
       and vs = "[\<lparr>position = Vector3 0 0 0, oldPosition = Vector3 0 0 0,
          acceleration = Vector3 0 0 0, isFixed = False, mass = 1, pinned = False\<rparr>,
         \<lparr>position = Vector3 1 0 0, oldPosition = Vector3 1 0 0,
          acceleration = Vector3 0 0 0, isFixed = False, mass = 1, pinned = False\<rparr>]"
       and k = 0 and cs = "[\<lparr>v1 = 0, v2 = 1, restLength = 0.1, stiffness = 0.5, active = True\<rparr>]"
       and j = 0
       and st = "\<lparr>meshRef = True,
        vertices = [\<lparr>position = Vector3 0 0 0, oldPosition = Vector3 0 0 0,
          acceleration = Vector3 0 0 0, isFixed = True, mass = 1, pinned = False\<rparr>,
         \<lparr>position = Vector3 1 0 0, oldPosition = Vector3 1 0 0,
          acceleration = Vector3 0 0 0, isFixed = True, mass = 1, pinned = False\<rparr>],
        constraints = [\<lparr>v1 = 0, v2 = 1, restLength = 0.1, stiffness = 0.5, active = True\<rparr>],
        sphere = \<lparr>sposition = Vector3 0 0 0, radius = 0.3, lastPosition = Vector3 0 0 0\<rparr>,
        frameCount = 59\<rparr>"
       and props = "\<lparr>showSphere = False, windIntensity = 0, enableTearing = True\<rparr>" and time = 0 and deltaTime = "1 / 60"]
  by (simp add: frame_vertices frame_constraints_eq applyForces_adv_def upt_conv_Cons
        AdvancedVerletVertex_addForce_def windForce_adv_def AdvancedVerletVertex_update_def
        AdvancedVerletConstraint_satisfy_def tearCheck_def AdvancedVerletConstraint_tear_def
        distanceTo_axis length_v_axis add_v_def sub_v_def multiplyScalar_def divideScalar_def
        TEAR_THRESHOLD_def relax_adv_numeral Let_def)

section \<open>Fixed particles\<close>

text \<open>
  Where fixed particles do stay in place: the basic cloth never changes a fixed particle,
  and neither does a frame of the advanced cloth that skips the self-collision pass
  (two frames out of three). The relation used below says that a particle stays fixed
  or free as it was and, when it is fixed (advanced: fixed or pinned), keeps all of its
  fields.
\<close>

lemma update_unfrozen:
  assumes "\<not> frozen (vs ! i)" "\<not> frozen x"
  shows "list_all2 (\<lambda>v v'. frozen v' = frozen v \<and> (frozen v \<longrightarrow> v' = v)) vs (vs[i := x])"
  unfolding list_all2_conv_all_nth
proof (intro conjI allI impI)
  show "length vs = length (vs[i := x])" by simp
next
  fix k assume "k < length vs"
  then show "frozen (vs[i := x] ! k) = frozen (vs ! k)"
    using assms by (cases "k = i") simp_all
next
  fix k assume "k < length vs" "frozen (vs ! k)"
  then show "vs[i := x] ! k = vs ! k"
    using assms by (cases "k = i") auto
qed

lemma satisfy_basic_keeps_fixed:
  "list_all2 (\<lambda>v v'. isFixed v' = isFixed v \<and> (isFixed v \<longrightarrow> v' = v))
     vs (VerletConstraint_satisfy c vs)"
proof -
  have one: "list_all2 (\<lambda>v v'. isFixed v' = isFixed v \<and> (isFixed v \<longrightarrow> v' = v)) ws
          (if \<not> isFixed (ws ! i) then ws[i := (ws ! i)\<lparr>position := p\<rparr>] else ws)"
    for ws :: "VerletVertex list" and i p
    by (simp add: update_unfrozen[where frozen = isFixed] list_all2_refl)
  have two: "list_all2 (\<lambda>v v'. isFixed v' = isFixed v \<and> (isFixed v \<longrightarrow> v' = v)) vs
          (if \<not> isFixed ((if \<not> isFixed (vs ! i) then vs[i := (vs ! i)\<lparr>position := p\<rparr>] else vs) ! j)
           then (if \<not> isFixed (vs ! i) then vs[i := (vs ! i)\<lparr>position := p\<rparr>] else vs)
                  [j := ((if \<not> isFixed (vs ! i) then vs[i := (vs ! i)\<lparr>position := p\<rparr>] else vs) ! j)
                          \<lparr>position := q\<rparr>]
           else (if \<not> isFixed (vs ! i) then vs[i := (vs ! i)\<lparr>position := p\<rparr>] else vs))"
    for i j p q
    by (rule list_all2_trans[OF _ one one]) auto
  show ?thesis
    unfolding VerletConstraint_satisfy_def Let_def
    using two by (simp add: list_all2_refl)
qed

lemma solvePass_keeps_fixed:
  "list_all2 (\<lambda>v v'. isFixed v' = isFixed v \<and> (isFixed v \<longrightarrow> v' = v)) vs (solvePass cs vs)"
proof (induction cs arbitrary: vs)
  case Nil
  then show ?case by (simp add: list_all2_refl)
next
  case (Cons c cs)
  have "list_all2 (\<lambda>v v'. isFixed v' = isFixed v \<and> (isFixed v \<longrightarrow> v' = v))
          vs (solvePass cs (VerletConstraint_satisfy c vs))"
    by (rule list_all2_trans[OF _ satisfy_basic_keeps_fixed Cons.IH]) auto
  then show ?case by simp
qed

lemma relax_keeps_fixed:
  "list_all2 (\<lambda>v v'. isFixed v' = isFixed v \<and> (isFixed v \<longrightarrow> v' = v)) vs (relax n cs vs)"
proof (induction n arbitrary: vs)
  case 0
  then show ?case by (simp add: list_all2_refl)
next
  case (Suc n)
  have "list_all2 (\<lambda>v v'. isFixed v' = isFixed v \<and> (isFixed v \<longrightarrow> v' = v))
          vs (relax n cs (solvePass cs vs))"
    by (rule list_all2_trans[OF _ solvePass_keeps_fixed Suc.IH]) auto
  then show ?case by simp
qed

lemma forces_update_keep_fixed:
  "list_all2 (\<lambda>v v'. isFixed v' = isFixed v \<and> (isFixed v \<longrightarrow> v' = v))
     vs (map (VerletVertex_update deltaTime) (map (applyForces props time s) vs))"
  by (simp add: list_all2_map2 list_all2_refl applyForces_def VerletVertex_update_def
        VerletVertex_addForce_def sphereCollision_def Let_def)

lemma basic_frame_keeps_fixed:
  assumes "k < length (vertices st)" "isFixed (vertices st ! k)"
  shows "vertices (ClothSimulation_frame props time deltaTime st) ! k = vertices st ! k"
proof (cases "meshRef st")
  case False
  then show ?thesis by (simp add: ClothSimulation_frame_def)
next
  case True
  have "list_all2 (\<lambda>v v'. isFixed v' = isFixed v \<and> (isFixed v \<longrightarrow> v' = v))
     (vertices st)
     (relax 4 (constraints st)
        (map (VerletVertex_update deltaTime)
           (map (applyForces props time ((sphere st)\<lparr>sposition := spherePath time\<rparr>))
              (vertices st))))"
    by (rule list_all2_trans[OF _ forces_update_keep_fixed relax_keeps_fixed]) auto
  then show ?thesis
    using True assms
    by (simp add: ClothSimulation_frame_def Let_def list_all2_conv_all_nth)
qed

lemma satisfy_adv_keeps_fixed:
  "list_all2 (\<lambda>v v'. (isFixed v' \<or> pinned v') = (isFixed v \<or> pinned v)
                     \<and> (isFixed v \<or> pinned v \<longrightarrow> v' = v))
     vs (snd (AdvancedVerletConstraint_satisfy c vs))"
proof -
  have one: "list_all2 (\<lambda>v v'. (isFixed v' \<or> pinned v') = (isFixed v \<or> pinned v)
                     \<and> (isFixed v \<or> pinned v \<longrightarrow> v' = v)) ws
          (if \<not> isFixed (ws ! i) \<and> \<not> pinned (ws ! i)
           then ws[i := (ws ! i)\<lparr>position := p\<rparr>] else ws)"
    for ws :: "AdvancedVerletVertex list" and i p
    using update_unfrozen[where frozen = "\<lambda>v. isFixed v \<or> pinned v" and vs = ws and i = i
            and x = "(ws ! i)\<lparr>position := p\<rparr>"]
    by (simp add: list_all2_refl)
  have two: "list_all2 (\<lambda>v v'. (isFixed v' \<or> pinned v') = (isFixed v \<or> pinned v)
                     \<and> (isFixed v \<or> pinned v \<longrightarrow> v' = v)) vs
          (if \<not> isFixed ((if \<not> isFixed (vs ! i) \<and> \<not> pinned (vs ! i)
                            then vs[i := (vs ! i)\<lparr>position := p\<rparr>] else vs) ! j)
              \<and> \<not> pinned ((if \<not> isFixed (vs ! i) \<and> \<not> pinned (vs ! i)
                            then vs[i := (vs ! i)\<lparr>position := p\<rparr>] else vs) ! j)
           then (if \<not> isFixed (vs ! i) \<and> \<not> pinned (vs ! i)
                 then vs[i := (vs ! i)\<lparr>position := p\<rparr>] else vs)
                  [j := ((if \<not> isFixed (vs ! i) \<and> \<not> pinned (vs ! i)
                          then vs[i := (vs ! i)\<lparr>position := p\<rparr>] else vs) ! j)
                          \<lparr>position := q\<rparr>]
           else (if \<not> isFixed (vs ! i) \<and> \<not> pinned (vs ! i)
                 then vs[i := (vs ! i)\<lparr>position := p\<rparr>] else vs))"
    for i j p q
    by (rule list_all2_trans[OF _ one one]) auto
  show ?thesis
    unfolding AdvancedVerletConstraint_satisfy_def Let_def
    using two by (simp add: list_all2_refl)
qed

lemma solvePass_adv_keeps_fixed:
  "list_all2 (\<lambda>v v'. (isFixed v' \<or> pinned v') = (isFixed v \<or> pinned v)
                     \<and> (isFixed v \<or> pinned v \<longrightarrow> v' = v)) vs (snd (solvePass_adv cs vs))"
proof (induction cs arbitrary: vs)
  case Nil
  then show ?case by (simp add: list_all2_refl)
next
  case (Cons c cs)
  have first: "list_all2 (\<lambda>v v'. (isFixed v' \<or> pinned v') = (isFixed v \<or> pinned v)
                     \<and> (isFixed v \<or> pinned v \<longrightarrow> v' = v)) vs
      (snd (if active c then AdvancedVerletConstraint_satisfy c vs else (c, vs)))"
    using satisfy_adv_keeps_fixed[where vs = vs and c = c] by (simp add: list_all2_refl)
  have "list_all2 (\<lambda>v v'. (isFixed v' \<or> pinned v') = (isFixed v \<or> pinned v)
                     \<and> (isFixed v \<or> pinned v \<longrightarrow> v' = v)) vs
      (snd (solvePass_adv cs
              (snd (if active c then AdvancedVerletConstraint_satisfy c vs else (c, vs)))))"
    by (rule list_all2_trans[OF _ first Cons.IH]) auto
  then show ?case by (simp add: split_def Let_def)
qed

lemma relax_adv_keeps_fixed:
  "list_all2 (\<lambda>v v'. (isFixed v' \<or> pinned v') = (isFixed v \<or> pinned v)
                     \<and> (isFixed v \<or> pinned v \<longrightarrow> v' = v)) vs (snd (relax_adv n cs vs))"
proof (induction n arbitrary: cs vs)
  case 0
  then show ?case by (simp add: list_all2_refl)
next
  case (Suc n)
  have "list_all2 (\<lambda>v v'. (isFixed v' \<or> pinned v') = (isFixed v \<or> pinned v)
                     \<and> (isFixed v \<or> pinned v \<longrightarrow> v' = v)) vs
      (snd (relax_adv n (fst (solvePass_adv cs vs)) (snd (solvePass_adv cs vs))))"
    by (rule list_all2_trans[OF _ solvePass_adv_keeps_fixed Suc.IH]) auto
  then show ?case by (simp add: split_def Let_def)
qed

lemma applyForces_adv_keeps_fixed:
  assumes "fc mod 3 \<noteq> 0"
  shows "list_all2 (\<lambda>v v'. (isFixed v' \<or> pinned v') = (isFixed v \<or> pinned v)
                     \<and> (isFixed v \<or> pinned v \<longrightarrow> v' = v)) vs (applyForces_adv props time s fc i vs)"
proof (cases "isFixed (vs ! i) \<or> pinned (vs ! i)")
  case True
  then show ?thesis by (simp add: applyForces_adv_def list_all2_refl)
next
  case False
  then show ?thesis
    using assms
    by (simp add: applyForces_adv_def Let_def AdvancedVerletVertex_addForce_def
          sphereCollision_adv_def
          update_unfrozen[where frozen = "\<lambda>v. isFixed v \<or> pinned v", simplified])
qed

lemma fold_applyForces_adv_keeps_fixed:
  assumes "fc mod 3 \<noteq> 0"
  shows "list_all2 (\<lambda>v v'. (isFixed v' \<or> pinned v') = (isFixed v \<or> pinned v)
                     \<and> (isFixed v \<or> pinned v \<longrightarrow> v' = v)) vs (fold (applyForces_adv props time s fc) is vs)"
proof (induction "is" arbitrary: vs)
  case Nil
  then show ?case by (simp add: list_all2_refl)
next
  case (Cons i "is")
  have "list_all2 (\<lambda>v v'. (isFixed v' \<or> pinned v') = (isFixed v \<or> pinned v)
                     \<and> (isFixed v \<or> pinned v \<longrightarrow> v' = v)) vs
          (fold (applyForces_adv props time s fc) is (applyForces_adv props time s fc i vs))"
    by (rule list_all2_trans[OF _ applyForces_adv_keeps_fixed[OF assms] Cons.IH]) auto
  then show ?case by simp
qed

lemma update_adv_keeps_fixed:
  "list_all2 (\<lambda>v v'. (isFixed v' \<or> pinned v') = (isFixed v \<or> pinned v)
                     \<and> (isFixed v \<or> pinned v \<longrightarrow> v' = v)) vs (map (AdvancedVerletVertex_update deltaTime) vs)"
  by (simp add: list_all2_map2 list_all2_refl AdvancedVerletVertex_update_def Let_def)

lemma advanced_frame_keeps_fixed:
  assumes "(frameCount st + 1) mod 3 \<noteq> 0"
    and "k < length (vertices st)" "isFixed (vertices st ! k) \<or> pinned (vertices st ! k)"
  shows "vertices (AdvancedClothSimulation_frame props time deltaTime st) ! k = vertices st ! k"
proof (cases "meshRef st")
  case False
  then show ?thesis by (simp add: AdvancedClothSimulation_frame_def)
next
  case True
  have a: "list_all2 (\<lambda>v v'. (isFixed v' \<or> pinned v') = (isFixed v \<or> pinned v)
                     \<and> (isFixed v \<or> pinned v \<longrightarrow> v' = v)) (vertices st)
      (map (AdvancedVerletVertex_update deltaTime)
         (fold (applyForces_adv props time
                  ((sphere st)\<lparr>lastPosition := sposition (sphere st),
                                sposition := spherePath_adv time\<rparr>)
                  (frameCount st + 1))
            [0..<length (vertices st)] (vertices st)))"
    by (rule list_all2_trans[OF _ fold_applyForces_adv_keeps_fixed[OF assms(1)]
          update_adv_keeps_fixed]) auto
  have "list_all2 (\<lambda>v v'. (isFixed v' \<or> pinned v') = (isFixed v \<or> pinned v)
                     \<and> (isFixed v \<or> pinned v \<longrightarrow> v' = v)) (vertices st)
      (vertices (AdvancedClothSimulation_frame props time deltaTime st))"
    unfolding frame_vertices[OF True]
    by (rule list_all2_trans[OF _ a relax_adv_keeps_fixed]) auto
  then show ?thesis
    using assms(2,3) by (auto simp add: list_all2_conv_all_nth)
qed

text \<open>
  Claim C1 says that a frame never moves a fixed particle. The force pass, \<open>update\<close> and
  \<open>satisfy\<close> all test \<open>isFixed\<close> before they write a position, but the self-collision
  loop of the advanced cloth writes \<open>other.position\<close> without testing \<open>other\<close>. In the
  state below particle 0 is free, particle 10, the first partner of particle 0 in that
  loop, is fixed and 0.05 away from it, and the frame is the third: the frame moves the
  fixed particle from \<open>x = 0.05\<close> to \<open>x = 0.075\<close>.
\<close>
theorem fixed_particle_moved_by_self_collision:
  "isFixed ([AdvancedVerletVertex_new 0 0 0 False,
           AdvancedVerletVertex_new 5 5 5 True, AdvancedVerletVertex_new 5 5 5 True,
           AdvancedVerletVertex_new 5 5 5 True, AdvancedVerletVertex_new 5 5 5 True,
           AdvancedVerletVertex_new 5 5 5 True, AdvancedVerletVertex_new 5 5 5 True,
           AdvancedVerletVertex_new 5 5 5 True, AdvancedVerletVertex_new 5 5 5 True,
           AdvancedVerletVertex_new 5 5 5 True,
           AdvancedVerletVertex_new 0.05 0 0 True] ! 10)
   \<and> position ([AdvancedVerletVertex_new 0 0 0 False,
           AdvancedVerletVertex_new 5 5 5 True, AdvancedVerletVertex_new 5 5 5 True,
           AdvancedVerletVertex_new 5 5 5 True, AdvancedVerletVertex_new 5 5 5 True,
           AdvancedVerletVertex_new 5 5 5 True, AdvancedVerletVertex_new 5 5 5 True,
           AdvancedVerletVertex_new 5 5 5 True, AdvancedVerletVertex_new 5 5 5 True,
           AdvancedVerletVertex_new 5 5 5 True,
           AdvancedVerletVertex_new 0.05 0 0 True] ! 10) = Vector3 0.05 0 0
   \<and> position (vertices
     (AdvancedClothSimulation_frame
        \<lparr>showSphere = False, windIntensity = 0, enableTearing = False\<rparr> 0 (1 / 60)
        \<lparr>meshRef = True,
         vertices = [AdvancedVerletVertex_new 0 0 0 False,
           AdvancedVerletVertex_new 5 5 5 True, AdvancedVerletVertex_new 5 5 5 True,
           AdvancedVerletVertex_new 5 5 5 True, AdvancedVerletVertex_new 5 5 5 True,
           AdvancedVerletVertex_new 5 5 5 True, AdvancedVerletVertex_new 5 5 5 True,
           AdvancedVerletVertex_new 5 5 5 True, AdvancedVerletVertex_new 5 5 5 True,
           AdvancedVerletVertex_new 5 5 5 True,
           AdvancedVerletVertex_new 0.05 0 0 True],
         constraints = [],
         sphere = \<lparr>sposition = Vector3 0 0 0, radius = 0.3, lastPosition = Vector3 0 0 0\<rparr>,
         frameCount = 2\<rparr>) ! 10) = Vector3 0.075 0 0"
  by (simp add: frame_vertices applyForces_adv_def upt_conv_Cons AdvancedVerletVertex_new_def
        AdvancedVerletVertex_addForce_def windForce_adv_def AdvancedVerletVertex_update_def
        selfCollisionLoop.simps selfCollisionPair_def distanceTo_axis normalize_v_def
        length_v_axis add_v_def sub_v_def multiplyScalar_def
        divideScalar_def relax_adv_numeral Let_def)

end
